theory Spec2Isabelle
  imports Complex_Main "HOL-Library.AList"
begin

section \<open>Data model (src/types/types.ts)\<close>

datatype layer_tag = Signature | Heuristic | MachineLearning | Behavior

datatype risk_level = Safe | Low | Medium | High | Critical

record DetectionLayer =
  layer :: layer_tag
  method_name :: string
  score :: int
  details :: string
  matched :: bool

record ThreatAnalysisResult =
  url :: string
  isMalicious :: bool
  riskScore :: int
  riskLevel :: risk_level
  detectionLayers :: "DetectionLayer list"
  timestamp :: int
  result_details :: string

record CacheEntry =
  result :: ThreatAnalysisResult
  entry_timestamp :: int

record URLFeatures =
  f_length :: nat
  domainLength :: nat
  subdomainCount :: nat
  hasIP :: bool
  usesHTTPS :: bool
  hasSuspiciousTLD :: bool
  hasPunycode :: bool
  hasPort :: bool
  specialCharCount :: nat
  digitCount :: nat
  entropy :: rat
  urlEncodingCount :: nat
  suspiciousEncoding :: bool
  hasReadableParams :: bool
  hasRandomParams :: bool
  hasQualityDomain :: bool
  phishingKeywordCount :: nat
  urgentKeywordCount :: nat
  brandImpersonation :: "string option"
  pathDepth :: nat
  pathSlashCount :: nat
  hasConsecutiveChars :: bool
  isShortener :: bool
  hasHyphenSpam :: bool
  hasDotSpam :: bool

text \<open>The feature vector of the third layer. Its flags are numbers (0 or 1) in the
  source, and stay numbers here.\<close>

record MLFeatureVector =
  v_urlLength :: nat
  v_domainLength :: nat
  v_pathLength :: nat
  v_queryLength :: nat
  v_subdomainCount :: nat
  v_digitRatio :: rat
  v_specialCharRatio :: rat
  v_consonantRatio :: rat
  v_entropy :: rat
  v_hasIP :: nat
  v_usesHTTPS :: nat
  v_hasSuspiciousTLD :: nat
  v_hasPunycode :: nat
  v_phishingKeywordScore :: nat
  v_urgentKeywordScore :: nat
  v_pathDepth :: nat
  v_hasConsecutiveChars :: nat
  v_isShortener :: nat
  v_hasReadableParams :: nat
  v_hasQualityDomain :: nat
  v_suspiciousEncoding :: nat
  v_hasRandomParams :: nat

text \<open>APIResponse. Of the untyped member \<open>details\<close> the code reads only
  \<open>details?.totalDetections\<close>, which is kept as an optional number.\<close>

record APIResponse =
  success :: bool
  malicious :: bool
  source :: string
  totalDetections :: "nat option"
  error :: "string option"

section \<open>The platform\<close>

text \<open>What the code obtains from the browser rather than from the repository: the URL
  parser, the extension's key store, the three remote services and the regular-expression
  and floating-point machinery of feature extraction. All of it is a parameter of the
  model, so that the theorems hold whatever the platform answers.\<close>

datatype exn = TypeError string

text \<open>A parsed URL as the code reads it: the components it accesses, the serialisation
  up to the fragment, and the fragment. \<open>urlObj.hash = ''\<close> removes the fragment;
  \<open>urlObj.href\<close> is the serialisation followed by the fragment, if there is one.\<close>

record URL =
  protocol :: string
  hostname :: string
  port :: string
  pathname :: string
  search :: string
  href_base :: string
  fragment :: "string option"

definition href :: "URL \<Rightarrow> string" where
  "href u = href_base u @ (case fragment u of None \<Rightarrow> [] | Some f \<Rightarrow> CHR ''#'' # f)"

definition clear_hash :: "URL \<Rightarrow> URL" where
  "clear_hash u = u\<lparr>fragment := None\<rparr>"

text \<open>The outcome of one \<open>fetch\<close> followed by \<open>response.json()\<close>: the request fails
  with a message, the response has a status that is not ok, the body is not JSON, or the
  body is read.\<close>

datatype 'a fetched = NetworkError string | HttpStatus nat | BadJson string | Body 'a

record platform =
  new_URL :: "string \<Rightarrow> exn + URL"
  storage_get :: "(string \<rightharpoonup> string) option"
  fetch_safe_browsing :: "string \<Rightarrow> nat fetched"
  fetch_phishtank :: "string \<Rightarrow> (bool \<times> bool) fetched"
  fetch_virustotal :: "string \<Rightarrow> (nat \<times> nat) fetched"
  features_body :: "string \<Rightarrow> URL \<Rightarrow> exn + URLFeatures"

section \<open>Strings\<close>

text \<open>Strings are lists of 8-bit characters; the model covers ASCII text, on which
  \<open>toLowerCase\<close> maps A-Z to a-z and leaves every other character alone.\<close>

definition lower_char :: "char \<Rightarrow> char" where
  "lower_char c =
     (let n = (of_char c :: nat) in if 65 \<le> n \<and> n \<le> 90 then char_of (n + 32) else c)"

definition toLowerCase :: "string \<Rightarrow> string" where
  "toLowerCase s = map lower_char s"

definition startsWith :: "string \<Rightarrow> string \<Rightarrow> bool" where
  "startsWith s p = (take (length p) s = p)"

definition endsWith :: "string \<Rightarrow> string \<Rightarrow> bool" where
  "endsWith s p = (length p \<le> length s \<and> drop (length s - length p) s = p)"

text \<open>\<open>s.includes(p)\<close>: \<open>p\<close> occurs in \<open>s\<close> as a contiguous substring.\<close>

fun str_includes :: "string \<Rightarrow> string \<Rightarrow> bool" where
  "str_includes [] p = (p = [])"
| "str_includes (c # cs) p = (startsWith (c # cs) p \<or> str_includes cs p)"

fun join :: "string \<Rightarrow> string list \<Rightarrow> string" where
  "join sep [] = []"
| "join sep [x] = x"
| "join sep (x # y # ys) = x @ sep @ join sep (y # ys)"

text \<open>Decimal rendering of a number inside a template literal.\<close>

fun show_nat :: "nat \<Rightarrow> string" where
  "show_nat n =
     (if n < 10 then [char_of (48 + n)]
      else show_nat (n div 10) @ [char_of (48 + n mod 10)])"

declare show_nat.simps [simp del]

section \<open>Configuration (src/config/config.ts)\<close>

definition RISK_THRESHOLDS_LOW :: int where "RISK_THRESHOLDS_LOW = 25"
definition RISK_THRESHOLDS_MEDIUM :: int where "RISK_THRESHOLDS_MEDIUM = 40"
definition RISK_THRESHOLDS_HIGH :: int where "RISK_THRESHOLDS_HIGH = 60"
definition RISK_THRESHOLDS_CRITICAL :: int where "RISK_THRESHOLDS_CRITICAL = 85"

lemmas RISK_THRESHOLDS_defs =
  RISK_THRESHOLDS_LOW_def RISK_THRESHOLDS_MEDIUM_def
  RISK_THRESHOLDS_HIGH_def RISK_THRESHOLDS_CRITICAL_def

definition CACHE_SAFE_URL_TTL :: int where "CACHE_SAFE_URL_TTL = 3600000"
definition CACHE_MAX_CACHE_SIZE :: nat where "CACHE_MAX_CACHE_SIZE = 10000"

definition WEIGHT_IP_URL :: int where "WEIGHT_IP_URL = 40"
definition WEIGHT_SUSPICIOUS_TLD :: int where "WEIGHT_SUSPICIOUS_TLD = 25"
definition WEIGHT_PUNYCODE :: int where "WEIGHT_PUNYCODE = 35"
definition WEIGHT_LONG_URL :: int where "WEIGHT_LONG_URL = 15"
definition WEIGHT_EXCESSIVE_SUBDOMAIN :: int where "WEIGHT_EXCESSIVE_SUBDOMAIN = 20"
definition WEIGHT_URL_ENCODING :: int where "WEIGHT_URL_ENCODING = 25"
definition WEIGHT_SUSPICIOUS_KEYWORDS :: int where "WEIGHT_SUSPICIOUS_KEYWORDS = 30"
definition WEIGHT_NO_HTTPS :: int where "WEIGHT_NO_HTTPS = 15"

lemmas WEIGHT_defs =
  WEIGHT_IP_URL_def WEIGHT_SUSPICIOUS_TLD_def WEIGHT_PUNYCODE_def WEIGHT_LONG_URL_def
  WEIGHT_EXCESSIVE_SUBDOMAIN_def WEIGHT_URL_ENCODING_def WEIGHT_SUSPICIOUS_KEYWORDS_def
  WEIGHT_NO_HTTPS_def

definition TRUSTED_INFRA_DOMAINS :: "string list" where
  "TRUSTED_INFRA_DOMAINS =
     [''google.com'', ''googleapis.com'', ''googleusercontent.com'', ''gstatic.com'',
      ''gmail.com'', ''youtube.com'', ''googlevideo.com'', ''google-analytics.com'',
      ''doubleclick.net'',
      ''firebaseapp.com'', ''firebaseio.com'', ''firebasestorage.googleapis.com'',
      ''appspot.com'', ''cloudfront.net'', ''amazonaws.com'', ''azureedge.net'', ''azure.com'',
      ''microsoft.com'', ''microsoftonline.com'', ''office.com'', ''outlook.com'',
      ''live.com'', ''windows.net'',
      ''github.com'', ''github.io'', ''gitlab.com'', ''bitbucket.org'', ''sourceforge.net'',
      ''npmjs.com'', ''stackoverflow.com'',
      ''apple.com'', ''icloud.com'', ''facebook.com'', ''fbcdn.net'', ''twitter.com'',
      ''twimg.com'', ''linkedin.com'', ''licdn.com'', ''amazon.com'',
      ''ssl-images-amazon.com'', ''cloudflare.com'', ''akamai.net'', ''fastly.net'']"

definition PHISHING_KEYWORDS :: "string list" where
  "PHISHING_KEYWORDS =
     [''login'', ''signin'', ''verify'', ''account'', ''security'', ''update'',
      ''confirm'', ''banking'', ''paypal'', ''suspended'', ''limited'',
      ''unusual'', ''activity'', ''locked'', ''validate'', ''secure'',
      ''password'', ''credential'', ''verification'', ''authorize'',
      ''authenticate'', ''billing'', ''payment'', ''wallet'', ''invoice'']"

definition URL_LENGTH_SUSPICIOUS :: nat where "URL_LENGTH_SUSPICIOUS = 75"
definition URL_LENGTH_VERY_SUSPICIOUS :: nat where "URL_LENGTH_VERY_SUSPICIOUS = 150"
definition URL_LENGTH_EXTREME :: nat where "URL_LENGTH_EXTREME = 250"
definition MAX_SUBDOMAINS :: nat where "MAX_SUBDOMAINS = 4"
definition PATH_ANALYSIS_MAX_DEPTH :: nat where "PATH_ANALYSIS_MAX_DEPTH = 8"

definition SAFE_BROWSING_PER_MINUTE :: nat where "SAFE_BROWSING_PER_MINUTE = 60"
definition VIRUSTOTAL_PER_DAY :: nat where "VIRUSTOTAL_PER_DAY = 500"

section \<open>HeuristicEngine (src/detection/heuristic-engine.ts)\<close>

text \<open>The value returned by the catch block of extractFeatures.\<close>

definition default_features :: URLFeatures where
  "default_features =
     \<lparr>f_length = 0, domainLength = 0, subdomainCount = 0, hasIP = False, usesHTTPS = True,
      hasSuspiciousTLD = False, hasPunycode = False, hasPort = False, specialCharCount = 0,
      digitCount = 0, entropy = 0, urlEncodingCount = 0, suspiciousEncoding = False,
      hasReadableParams = True, hasRandomParams = False, hasQualityDomain = True,
      phishingKeywordCount = 0, urgentKeywordCount = 0, brandImpersonation = None,
      pathDepth = 0, pathSlashCount = 0, hasConsecutiveChars = False, isShortener = False,
      hasHyphenSpam = False, hasDotSpam = False\<rparr>"

text \<open>extractFeatures is one try block: the URL is parsed, the features are computed
  from the string and the parsed URL, and whatever is thrown on the way is caught and
  answered with the defaults. The computation of the features (lines 18 to 117 of the
  source) runs on the regular-expression engine and on \<open>Math.log2\<close>; it is the member
  \<open>features_body\<close> of the platform, free to return any feature set or to throw, so
  that what is proved below holds for every outcome of it.\<close>

definition extractFeatures :: "platform \<Rightarrow> string \<Rightarrow> URLFeatures" where
  "extractFeatures env u =
     (case new_URL env u of
        Inl e \<Rightarrow> default_features
      | Inr urlObj \<Rightarrow>
          (case features_body env u urlObj of
             Inl e \<Rightarrow> default_features
           | Inr f \<Rightarrow> f))"

definition signal :: "layer_tag \<Rightarrow> string \<Rightarrow> int \<Rightarrow> string \<Rightarrow> bool \<Rightarrow> DetectionLayer" where
  "signal l m sc d b = \<lparr>layer = l, method_name = m, score = sc, details = d, matched = b\<rparr>"

text \<open>\<open>if (c) layers.push(x)\<close>.\<close>

definition push_if :: "bool \<Rightarrow> DetectionLayer \<Rightarrow> DetectionLayer list" where
  "push_if c x = (if c then [x] else [])"

text \<open>\<open>s.split(d)\<close> for a one-character separator.\<close>

fun split_on :: "char \<Rightarrow> string \<Rightarrow> string list" where
  "split_on d [] = [[]]"
| "split_on d (c # cs) =
     (if c = d then [] # split_on d cs
      else (case split_on d cs of [] \<Rightarrow> [[c]] | p # ps \<Rightarrow> (c # p) # ps))"

text \<open>The character classes of the regular expressions that analyze applies to the
  second-level domain and to the leftmost label.\<close>

definition is_digit :: "char \<Rightarrow> bool" where
  "is_digit c = (let n = (of_char c :: nat) in 48 \<le> n \<and> n \<le> 57)"

definition is_lower :: "char \<Rightarrow> bool" where
  "is_lower c = (let n = (of_char c :: nat) in 97 \<le> n \<and> n \<le> 122)"

definition is_hex :: "char \<Rightarrow> bool" where
  "is_hex c = (let n = (of_char c :: nat) in
     (48 \<le> n \<and> n \<le> 57) \<or> (97 \<le> n \<and> n \<le> 102) \<or> (65 \<le> n \<and> n \<le> 70))"

text \<open>\<open>/[a-z0-9]+-[a-z0-9]+/.test(s)\<close>: a hyphen between two characters of the class.\<close>

fun hyphenated :: "string \<Rightarrow> bool" where
  "hyphenated (a # b # c # cs) =
     (((is_lower a \<or> is_digit a) \<and> b = CHR ''-'' \<and> (is_lower c \<or> is_digit c))
      \<or> hyphenated (b # c # cs))"
| "hyphenated cs = False"

text \<open>\<open>/[a-z]{5,}[0-9]{3,}/.test(s)\<close>: five letters directly followed by three digits.\<close>

fun letters_then_digits :: "string \<Rightarrow> bool" where
  "letters_then_digits [] = False"
| "letters_then_digits (c # cs) =
     ((length (c # cs) \<ge> 8 \<and> list_all is_lower (take 5 (c # cs))
         \<and> list_all is_digit (take 3 (drop 5 (c # cs))))
      \<or> letters_then_digits cs)"

definition isSuspiciousSLD :: "string \<Rightarrow> bool" where
  "isSuspiciousSLD sld =
     ((hyphenated sld \<and> list_ex is_digit sld \<and> length sld > 12)
      \<or> letters_then_digits sld
      \<or> (list_all is_hex sld \<and> length sld \<ge> 10))"

definition isSuspiciousSubdomain :: "string \<Rightarrow> bool" where
  "isSuspiciousSubdomain sub =
     ((list_all is_hex sub \<and> 3 \<le> length sub \<and> length sub \<le> 8)
      \<or> (length sub > 5 \<and> list_ex is_digit sub \<and> list_ex is_lower sub))"

text \<open>\<open>x.toFixed(2)\<close> for a non-negative number: rounded to hundredths, ties upwards.\<close>

definition toFixed2 :: "rat \<Rightarrow> string" where
  "toFixed2 x =
     (let h = nat \<lfloor>x * 100 + 1 / 2\<rfloor>
      in show_nat (h div 100) @ ''.'' @ show_nat (h mod 100 div 10) @ show_nat (h mod 10))"

text \<open>The rules of HeuristicEngine.analyze, in the order of the source: what analyze
  pushes once the URL has been parsed.\<close>

definition heuristic_layers :: "URLFeatures \<Rightarrow> string \<Rightarrow> URL \<Rightarrow> DetectionLayer list" where
  "heuristic_layers features u urlObj =
     (let host = toLowerCase (hostname urlObj);
          isTrustedInfra =
            list_ex (\<lambda>d. host = d \<or> endsWith host (''.'' @ d)) TRUSTED_INFRA_DOMAINS;
          isStructuredURL = (hasReadableParams features \<and> hasQualityDomain features);
          lengthThreshold =
            (if isStructuredURL then URL_LENGTH_EXTREME else URL_LENGTH_VERY_SUSPICIOUS);
          keywordCountHostOnly = length (filter (\<lambda>k. str_includes host k) PHISHING_KEYWORDS);
          phishingCount =
            (if isTrustedInfra then keywordCountHostOnly else phishingKeywordCount features);
          domainParts = split_on CHR ''.'' (hostname urlObj)
      in
        push_if (hasIP features)
          (signal Heuristic ''IP Address Detection'' WEIGHT_IP_URL
             ''URL uses IP address instead of domain name'' True)
      @ push_if (hasSuspiciousTLD features)
          (signal Heuristic ''Suspicious TLD'' WEIGHT_SUSPICIOUS_TLD
             ''Domain uses a TLD commonly associated with phishing'' True)
      @ push_if (hasPunycode features)
          (signal Heuristic ''Punycode/IDN Detection'' WEIGHT_PUNYCODE
             ''URL contains internationalized domain (potential homograph attack)'' True)
      @ (if \<not> isTrustedInfra \<and> f_length features > lengthThreshold then
           [signal Heuristic ''Excessive URL Length'' (WEIGHT_LONG_URL * 2)
              (''URL length ('' @ show_nat (f_length features) @ '') is extremely suspicious'')
              True]
         else if \<not> isTrustedInfra \<and> f_length features > URL_LENGTH_SUSPICIOUS
                 \<and> \<not> isStructuredURL then
           [signal Heuristic ''Long URL'' WEIGHT_LONG_URL
              (''URL length ('' @ show_nat (f_length features) @ '') is suspicious'') True]
         else [])
      @ push_if (subdomainCount features > MAX_SUBDOMAINS)
          (signal Heuristic ''Excessive Subdomains'' WEIGHT_EXCESSIVE_SUBDOMAIN
             (''URL has '' @ show_nat (subdomainCount features) @ '' subdomains (suspicious)'')
             True)
      @ push_if (suspiciousEncoding features)
          (signal Heuristic ''Suspicious URL Encoding'' WEIGHT_URL_ENCODING
             ''URL encoding found in hostname or excessive in path (obfuscation attempt)''
             True)
      @ push_if (phishingCount > 0)
          (signal Heuristic ''Phishing Keywords'' (WEIGHT_SUSPICIOUS_KEYWORDS * int phishingCount)
             (''Contains '' @ show_nat phishingCount @ '' phishing-related keyword(s)''
                @ (if isTrustedInfra then '' in hostname'' else [])) True)
      @ (case brandImpersonation features of
           None \<Rightarrow> []
         | Some brand \<Rightarrow>
             push_if (brand \<noteq> [])
               (signal Heuristic ''Brand Impersonation'' 50
                  (''Potential impersonation of '' @ brand) True))
      @ push_if (\<not> usesHTTPS features \<and> phishingKeywordCount features > 0)
          (signal Heuristic ''No HTTPS on Sensitive Page'' WEIGHT_NO_HTTPS
             ''Sensitive page without HTTPS encryption'' True)
      @ push_if (hasConsecutiveChars features)
          (signal Heuristic ''Character Pattern Anomaly'' 15
             ''Domain contains suspicious repeated character patterns'' True)
      @ push_if (isShortener features)
          (signal Heuristic ''URL Shortener Detected'' 10
             ''URL uses a shortening service (destination unknown)'' True)
      @ push_if (hasHyphenSpam features)
          (signal Heuristic ''Hyphen Spam'' 18 ''Domain contains excessive hyphens'' True)
      @ push_if (hasDotSpam features)
          (signal Heuristic ''Subdomain Spam'' 20 ''Domain has excessive subdomain levels'' True)
      @ push_if (pathDepth features > PATH_ANALYSIS_MAX_DEPTH)
          (signal Heuristic ''Excessive Path Depth'' 12
             (''Path has '' @ show_nat (pathDepth features) @ '' levels (suspicious structure)'')
             True)
      @ push_if (urgentKeywordCount features > 0)
          (signal Heuristic ''Social Engineering Language''
             (25 * int (urgentKeywordCount features))
             (''Contains '' @ show_nat (urgentKeywordCount features)
                @ '' urgent/pressure keyword(s)'') True)
      @ push_if (\<not> isTrustedInfra \<and> entropy features > 4)
          (signal Heuristic ''High Domain Entropy'' 25
             (''Domain has high entropy ('' @ toFixed2 (entropy features)
                @ ''), possibly randomly generated'') True)
      @ push_if (length domainParts \<ge> 2
                 \<and> isSuspiciousSLD (domainParts ! (length domainParts - 2)))
          (signal Heuristic ''DGA / Random Domain'' 35
             ''Domain name pattern appears randomly generated or algorithmic'' True)
      @ push_if (length domainParts > 2 \<and> isSuspiciousSubdomain (hd domainParts))
          (signal Heuristic ''Suspicious Subdomain'' 30
             ''Subdomain appears to be a generated hash or ID'' True))"

text \<open>HeuristicEngine.analyze: the features come from extractFeatures, which never
  throws; the host name comes from a second \<open>new URL(url)\<close> that stands outside every
  try block, so its TypeError leaves analyze.\<close>

definition HeuristicEngine_analyze :: "platform \<Rightarrow> string \<Rightarrow> exn + DetectionLayer list" where
  "HeuristicEngine_analyze env u =
     (let features = extractFeatures env u
      in case new_URL env u of
           Inl e \<Rightarrow> Inl e
         | Inr urlObj \<Rightarrow> Inr (heuristic_layers features u urlObj))"

section \<open>The third layer (src/detection/ml-engine.ts)\<close>

definition default_vector :: MLFeatureVector where
  "default_vector =
     \<lparr>v_urlLength = 0, v_domainLength = 0, v_pathLength = 0, v_queryLength = 0,
      v_subdomainCount = 0, v_digitRatio = 0, v_specialCharRatio = 0, v_consonantRatio = 0,
      v_entropy = 0, v_hasIP = 0, v_usesHTTPS = 1, v_hasSuspiciousTLD = 0, v_hasPunycode = 0,
      v_phishingKeywordScore = 0, v_urgentKeywordScore = 0, v_pathDepth = 0,
      v_hasConsecutiveChars = 0, v_isShortener = 0, v_hasReadableParams = 1,
      v_hasQualityDomain = 1, v_suspiciousEncoding = 0, v_hasRandomParams = 0\<rparr>"

text \<open>\<open>b ? 1 : 0\<close>.\<close>

definition flag :: "bool \<Rightarrow> nat" where
  "flag b = (if b then 1 else 0)"

definition is_vowel :: "char \<Rightarrow> bool" where
  "is_vowel c = (lower_char c \<in> set ''aeiou'')"

text \<open>extractMLFeatures. The ratios are quotients of counts; they are kept exact.\<close>

definition extractMLFeatures :: "platform \<Rightarrow> string \<Rightarrow> MLFeatureVector" where
  "extractMLFeatures env u =
     (let features = extractFeatures env u
      in case new_URL env u of
           Inl e \<Rightarrow> default_vector
         | Inr urlObj \<Rightarrow>
             (let len = f_length features;
                  denom = (of_nat (max len 1) :: rat);
                  vowelCount = length (filter is_vowel u)
              in \<lparr>v_urlLength = len,
                  v_domainLength = domainLength features,
                  v_pathLength = length (pathname urlObj),
                  v_queryLength = length (search urlObj),
                  v_subdomainCount = subdomainCount features,
                  v_digitRatio = of_nat (digitCount features) / denom,
                  v_specialCharRatio = of_nat (specialCharCount features) / denom,
                  v_consonantRatio =
                    of_int (int len - int vowelCount - int (digitCount features)) / denom,
                  v_entropy = entropy features,
                  v_hasIP = flag (hasIP features),
                  v_usesHTTPS = flag (usesHTTPS features),
                  v_hasSuspiciousTLD = flag (hasSuspiciousTLD features),
                  v_hasPunycode = flag (hasPunycode features),
                  v_phishingKeywordScore = phishingKeywordCount features * 10,
                  v_urgentKeywordScore = urgentKeywordCount features * 15,
                  v_pathDepth = pathDepth features,
                  v_hasConsecutiveChars = flag (hasConsecutiveChars features),
                  v_isShortener = flag (isShortener features),
                  v_hasReadableParams = flag (hasReadableParams features),
                  v_hasQualityDomain = flag (hasQualityDomain features),
                  v_suspiciousEncoding = flag (suspiciousEncoding features),
                  v_hasRandomParams = flag (hasRandomParams features)\<rparr>))"

text \<open>predict adds penalties to \<open>score\<close> and bonuses to \<open>legitimacyBonus\<close> and
  \<open>confidence\<close>; the three sums are written out in the order of the source.
  The confidence is counted in hundredths, which every step of the source adds or
  subtracts in whole numbers.\<close>

definition legitimacyBonus :: "MLFeatureVector \<Rightarrow> int" where
  "legitimacyBonus v =
     (if v_hasReadableParams v = 1 then 20 else 0)
   + (if v_hasQualityDomain v = 1 then 15 else 0)
   + (if v_usesHTTPS v = 1 \<and> v_hasQualityDomain v = 1 then 8 else 0)"

definition penalties :: "MLFeatureVector \<Rightarrow> int" where
  "penalties v =
     (let lengthPenalty = (if v_hasReadableParams v = 1 then 1 / 2 else 1 :: rat)
      in (if v_hasIP v \<noteq> 0 then 35 else 0)
       + (if v_hasPunycode v \<noteq> 0 then 30 else 0)
       + (if v_hasSuspiciousTLD v \<noteq> 0 then 28 else 0)
       + (if v_suspiciousEncoding v = 1 then 30 else 0)
       + (if v_hasRandomParams v = 1 then 22 else 0)
       + (if v_urlLength v > 300 then \<lfloor>25 * lengthPenalty\<rfloor>
          else if v_urlLength v > 200 then \<lfloor>15 * lengthPenalty\<rfloor>
          else if v_urlLength v > 120 then \<lfloor>8 * lengthPenalty\<rfloor> else 0)
       + (if v_domainLength v > 40 then 18 else if v_domainLength v > 25 then 10 else 0)
       + (if v_subdomainCount v > 5 then 30 else if v_subdomainCount v > 3 then 18
          else if v_subdomainCount v > 2 then 10 else 0)
       + (if v_pathDepth v > 10 then 15 else if v_pathDepth v > 7 then 8 else 0)
       + (if v_digitRatio v > 4 / 10 then 20 else if v_digitRatio v > 25 / 100 then 12 else 0)
       + (if v_specialCharRatio v > 35 / 100 then 18
          else if v_specialCharRatio v > 2 / 10 then 10 else 0)
       + (if v_consonantRatio v > 7 / 10 then 12 else 0)
       + (if v_entropy v > 48 / 10 then 25 else if v_entropy v > 42 / 10 then 15
          else if v_entropy v > 38 / 10 then 8 else 0)
       + (if v_hasConsecutiveChars v \<noteq> 0 then 12 else 0)
       + int (min (v_phishingKeywordScore v) 35)
       + int (min (v_urgentKeywordScore v) 40)
       + (if v_isShortener v \<noteq> 0 then 12 else 0)
       + (if v_usesHTTPS v = 0 then 10 else 0))"

definition confidence_hundredths :: "MLFeatureVector \<Rightarrow> int" where
  "confidence_hundredths v =
     70
   + (if v_hasReadableParams v = 1 then 8 else 0)
   + (if v_hasQualityDomain v = 1 then 5 else 0)
   + (if v_hasIP v \<noteq> 0 then 15 else 0)
   + (if v_hasPunycode v \<noteq> 0 then 10 else 0)
   + (if v_hasSuspiciousTLD v \<noteq> 0 then 8 else 0)
   + (if v_suspiciousEncoding v = 1 then 10 else 0)
   + (if v_hasRandomParams v = 1 then 8 else 0)
   + (if v_subdomainCount v > 5 then 10 else 0)
   + (if v_digitRatio v > 4 / 10 then 5 else 0)
   + (if v_entropy v > 48 / 10 then 10 else 0)
   + (if v_urgentKeywordScore v > 20 then 15 else 0)
   - (if v_isShortener v \<noteq> 0 then 10 else 0)"

text \<open>predict returns the score and the confidence (here in hundredths), each clamped.\<close>

definition predict :: "MLFeatureVector \<Rightarrow> int \<times> int" where
  "predict v =
     (let score1 = max 0 (penalties v - legitimacyBonus v);
          score2 = min 100 (max 0 score1);
          confidence = min 100 (max 10 (confidence_hundredths v))
      in (score2, confidence))"

text \<open>MLEngine.analyze. \<open>(confidence * 100).toFixed(0)\<close> prints the hundredths.
  The object it returns carries the feature vector and the confidence as two further
  members, which no caller reads; they are left out.\<close>

definition MLEngine_analyze :: "platform \<Rightarrow> string \<Rightarrow> DetectionLayer" where
  "MLEngine_analyze env u =
     (let features = extractMLFeatures env u;
          prediction = predict features;
          sc = fst prediction;
          percent = show_nat (nat (snd prediction))
      in signal MachineLearning (''ML Model ('' @ percent @ ''% confidence)'') sc
           (''ML prediction: '' @ show_nat (nat sc) @ ''/100 (confidence: '' @ percent @ ''%)'')
           (sc > 45))"

section \<open>The mutable state\<close>

text \<open>The static members of SignatureEngine and of ThreatAnalyzer. The result cache is
  a Map, whose iteration order is the order of insertion: an association list. Every
  function that writes a member returns the new state.\<close>

record sb_entry =
  sb_malicious :: bool
  sb_timestamp :: int

record counter =
  count :: nat
  resetTime :: int

record state =
  cache :: "(string \<times> CacheEntry) list"
  whitelist :: "string set"
  safeBrowsingCache :: "string \<rightharpoonup> sb_entry"
  rateLimitCounters :: "string \<rightharpoonup> counter"

section \<open>API keys (src/utils/api-keys.ts)\<close>

record ApiKeys =
  GOOGLE_SAFE_BROWSING :: string
  VIRUSTOTAL :: string
  PHISHTANK :: string

definition YOUR_API_KEY_HERE :: string where
  "YOUR_API_KEY_HERE = ''YOUR_API_KEY_HERE''"

text \<open>\<open>result.KEY || 'YOUR_API_KEY_HERE'\<close>: a missing or empty entry gives the
  placeholder.\<close>

definition key_or_placeholder :: "string option \<Rightarrow> string" where
  "key_or_placeholder v =
     (case v of None \<Rightarrow> YOUR_API_KEY_HERE
      | Some k \<Rightarrow> if k = [] then YOUR_API_KEY_HERE else k)"

definition getApiKeys :: "platform \<Rightarrow> ApiKeys" where
  "getApiKeys env =
     (case storage_get env of
        None \<Rightarrow>
          \<lparr>GOOGLE_SAFE_BROWSING = YOUR_API_KEY_HERE, VIRUSTOTAL = YOUR_API_KEY_HERE,
           PHISHTANK = YOUR_API_KEY_HERE\<rparr>
      | Some r \<Rightarrow>
          \<lparr>GOOGLE_SAFE_BROWSING = key_or_placeholder (r ''LS_GOOGLE_SAFE_BROWSING''),
           VIRUSTOTAL = key_or_placeholder (r ''LS_VIRUSTOTAL''),
           PHISHTANK = key_or_placeholder (r ''LS_PHISHTANK'')\<rparr>)"

section \<open>SignatureEngine (src/detection/signature-engine.ts)\<close>

definition succeeded :: "bool \<Rightarrow> string \<Rightarrow> nat option \<Rightarrow> APIResponse" where
  "succeeded m src n =
     \<lparr>success = True, malicious = m, source = src, totalDetections = n, error = None\<rparr>"

definition failed :: "string \<Rightarrow> string \<Rightarrow> APIResponse" where
  "failed src msg =
     \<lparr>success = False, malicious = False, source = src, totalDetections = None,
      error = Some msg\<rparr>"

text \<open>checkRateLimit: the answer and the counters after the call.\<close>

definition checkRateLimit ::
  "int \<Rightarrow> string \<Rightarrow> nat \<Rightarrow> (string \<rightharpoonup> counter) \<Rightarrow> bool \<times> (string \<rightharpoonup> counter)" where
  "checkRateLimit now service limit counters =
     (case counters service of
        None \<Rightarrow> (True, counters(service \<mapsto> \<lparr>count = 1, resetTime = now + 60000\<rparr>))
      | Some c \<Rightarrow>
          if now > resetTime c then
            (True, counters(service \<mapsto> \<lparr>count = 1, resetTime = now + 60000\<rparr>))
          else if count c \<ge> limit then (False, counters)
          else (True, counters(service \<mapsto> c\<lparr>count := count c + 1\<rparr>)))"

text \<open>The patterns of the local blacklist. \<open>/a.*b/i.test(s)\<close>: \<open>a\<close> occurs in
  \<open>s\<close>, and \<open>b\<close> after it before the line ends.\<close>

definition line_terminator :: "char \<Rightarrow> bool" where
  "line_terminator c = (c = CHR 0x0A \<or> c = CHR 0x0D)"

fun includes_then :: "string \<Rightarrow> string \<Rightarrow> string \<Rightarrow> bool" where
  "includes_then [] a b = (a = [] \<and> b = [])"
| "includes_then (c # cs) a b =
     ((startsWith (c # cs) a
         \<and> str_includes (takeWhile (\<lambda>x. \<not> line_terminator x) (drop (length a) (c # cs))) b)
      \<or> includes_then cs a b)"

definition isBlacklisted :: "string \<Rightarrow> bool" where
  "isBlacklisted u =
     (let l = toLowerCase u
      in str_includes l ''phishing'' \<or> str_includes l ''malware'' \<or> str_includes l ''scam''
         \<or> includes_then l ''fake'' ''login''
         \<or> includes_then l ''secure'' ''verify''
         \<or> includes_then l ''account'' ''suspend'')"

definition checkLocalBlacklist :: "platform \<Rightarrow> string \<Rightarrow> APIResponse" where
  "checkLocalBlacklist env u =
     (case new_URL env u of
        Inl e \<Rightarrow> failed ''Local Blacklist'' ''Error checking local blacklist''
      | Inr urlObj \<Rightarrow> succeeded (isBlacklisted u) ''Local Blacklist'' None)"

definition checkSafeBrowsing :: "platform \<Rightarrow> int \<Rightarrow> state \<Rightarrow> string \<Rightarrow> APIResponse \<times> state" where
  "checkSafeBrowsing env now st u =
     (let cached = safeBrowsingCache st u
      in if (case cached of None \<Rightarrow> False
             | Some c \<Rightarrow> now - sb_timestamp c < CACHE_SAFE_URL_TTL) then
           (succeeded (sb_malicious (the cached)) ''Google Safe Browsing (cached)'' None, st)
         else
           (let (allowed, counters) =
                  checkRateLimit now ''safe_browsing'' SAFE_BROWSING_PER_MINUTE
                    (rateLimitCounters st);
                st1 = st\<lparr>rateLimitCounters := counters\<rparr>
            in if \<not> allowed then
                 (failed ''Google Safe Browsing'' ''Rate limit exceeded'', st1)
               else if GOOGLE_SAFE_BROWSING (getApiKeys env) = YOUR_API_KEY_HERE then
                 (checkLocalBlacklist env u, st1)
               else
                 (case fetch_safe_browsing env u of
                    NetworkError msg \<Rightarrow> (failed ''Google Safe Browsing'' msg, st1)
                  | HttpStatus n \<Rightarrow>
                      (failed ''Google Safe Browsing'' (''API error: '' @ show_nat n), st1)
                  | BadJson msg \<Rightarrow> (failed ''Google Safe Browsing'' msg, st1)
                  | Body matches \<Rightarrow>
                      (succeeded (matches > 0) ''Google Safe Browsing'' None,
                       st1\<lparr>safeBrowsingCache :=
                             (safeBrowsingCache st1)
                               (u \<mapsto> \<lparr>sb_malicious = (matches > 0), sb_timestamp = now\<rparr>)\<rparr>))))"

definition checkPhishTank :: "platform \<Rightarrow> string \<Rightarrow> APIResponse" where
  "checkPhishTank env u =
     (if PHISHTANK (getApiKeys env) = YOUR_API_KEY_HERE then
        succeeded False ''PhishTank'' None
      else
        (case fetch_phishtank env u of
           NetworkError msg \<Rightarrow> failed ''PhishTank'' msg
         | HttpStatus n \<Rightarrow> failed ''PhishTank'' (''API unavailable ('' @ show_nat n @ '')'')
         | BadJson msg \<Rightarrow> failed ''PhishTank'' msg
         | Body (in_database, valid) \<Rightarrow> succeeded (in_database \<and> valid) ''PhishTank'' None))"

definition checkVirusTotal :: "platform \<Rightarrow> int \<Rightarrow> state \<Rightarrow> string \<Rightarrow> APIResponse \<times> state" where
  "checkVirusTotal env now st u =
     (if VIRUSTOTAL (getApiKeys env) = YOUR_API_KEY_HERE then
        (failed ''VirusTotal'' ''API key not configured'', st)
      else
        (let (allowed, counters) =
               checkRateLimit now ''virustotal'' VIRUSTOTAL_PER_DAY (rateLimitCounters st);
             st1 = st\<lparr>rateLimitCounters := counters\<rparr>
         in if \<not> allowed then (failed ''VirusTotal'' ''Rate limit exceeded'', st1)
            else
              (case fetch_virustotal env u of
                 NetworkError msg \<Rightarrow> (failed ''VirusTotal'' msg, st1)
               | HttpStatus n \<Rightarrow>
                   (failed ''VirusTotal'' (''VirusTotal API error: '' @ show_nat n), st1)
               | BadJson msg \<Rightarrow> (failed ''VirusTotal'' msg, st1)
               | Body (mal, susp) \<Rightarrow>
                   (succeeded (mal + susp > 0) ''VirusTotal'' (Some (mal + susp)), st1))))"

text \<open>An entry of the array that \<open>Promise.allSettled\<close> resolves to.\<close>

datatype settled = Fulfilled APIResponse | Rejected string

definition apiNames :: "string list" where
  "apiNames = [''Google Safe Browsing'', ''PhishTank'', ''VirusTotal'']"

text \<open>The body of the \<open>forEach\<close> in checkAllAPIs: what it pushes for the result at
  one index.\<close>

definition settled_layers :: "nat \<Rightarrow> settled \<Rightarrow> DetectionLayer list" where
  "settled_layers index r =
     (let apiName = apiNames ! index
      in case r of
           Fulfilled response \<Rightarrow>
             if success response then
               (if malicious response then
                  [signal Signature (source response) 100
                     (''Flagged as malicious by '' @ source response
                        @ (case totalDetections response of
                             None \<Rightarrow> []
                           | Some n \<Rightarrow>
                               if n = 0 then []
                               else '' ('' @ show_nat n @ '' detections)''))
                     True]
                else
                  [signal Signature (source response) 0
                     (''Checked by '' @ source response @ '' - Clean'') False])
             else
               [signal Signature apiName 0
                  (apiName @ '' check failed: ''
                     @ (case error response of
                          None \<Rightarrow> ''Unknown error''
                        | Some msg \<Rightarrow> if msg = [] then ''Unknown error'' else msg))
                  False]
         | Rejected reason \<Rightarrow>
             [signal Signature apiName 0 (apiName @ '' unavailable: '' @ reason) False])"

text \<open>checkAllAPIs. The three checks catch their own errors, so each promise is
  fulfilled. Only checkSafeBrowsing and checkVirusTotal write state, to different keys,
  so running them one after the other gives the state of any interleaving.\<close>

definition checkAllAPIs :: "platform \<Rightarrow> int \<Rightarrow> state \<Rightarrow> string \<Rightarrow> DetectionLayer list \<times> state" where
  "checkAllAPIs env now st u =
     (let (r0, st1) = checkSafeBrowsing env now st u;
          r1 = checkPhishTank env u;
          (r2, st2) = checkVirusTotal env now st1 u;
          results = [Fulfilled r0, Fulfilled r1, Fulfilled r2]
      in (concat (map (\<lambda>(index, r). settled_layers index r) (enumerate 0 results)), st2))"

section \<open>ThreatAnalyzer (src/detection/threat-analyzer.ts)\<close>

definition getRiskLevel :: "int \<Rightarrow> risk_level" where
  "getRiskLevel s =
     (if s \<ge> RISK_THRESHOLDS_CRITICAL then Critical
      else if s \<ge> RISK_THRESHOLDS_HIGH then High
      else if s \<ge> RISK_THRESHOLDS_MEDIUM then Medium
      else if s \<ge> RISK_THRESHOLDS_LOW then Low
      else Safe)"

text \<open>The order Safe < Low < Medium < High < Critical of the risk levels.\<close>

fun level_rank :: "risk_level \<Rightarrow> nat" where
  "level_rank Safe = 0"
| "level_rank Low = 1"
| "level_rank Medium = 2"
| "level_rank High = 3"
| "level_rank Critical = 4"


text \<open>normalizeURL: the serialisation without the fragment, without one trailing slash,
  in lower case; the lower-cased input where the URL does not parse.\<close>

definition normalizeURL :: "platform \<Rightarrow> string \<Rightarrow> string" where
  "normalizeURL env u =
     (case new_URL env u of
        Inl e \<Rightarrow> toLowerCase u
      | Inr urlObj \<Rightarrow>
          (let normalized = href (clear_hash urlObj);
               normalized = (if endsWith normalized ''/'' then butlast normalized else normalized)
           in toLowerCase normalized))"

text \<open>cacheResult: at capacity, the \<open>Math.floor(MAX_CACHE_SIZE * 0.2)\<close> entries with
  the oldest timestamps go (a fifth of the capacity; the sort is stable); then the entry
  is written, in place if the key is there, at the end otherwise.\<close>

definition cacheResult :: "int \<Rightarrow> string \<Rightarrow> ThreatAnalysisResult \<Rightarrow> state \<Rightarrow> state" where
  "cacheResult now u r st =
     (let c = cache st;
          c1 = (if length c \<ge> CACHE_MAX_CACHE_SIZE then
                  (let entries = sort_key (\<lambda>(k, e). entry_timestamp e) c;
                       toRemove = take (CACHE_MAX_CACHE_SIZE div 5) entries
                   in fold (\<lambda>(k, e) acc. AList.delete k acc) toRemove c)
                else c)
      in st\<lparr>cache := AList.update u \<lparr>result = r, entry_timestamp = now\<rparr> c1\<rparr>)"

definition addToWhitelist :: "string \<Rightarrow> state \<Rightarrow> state" where
  "addToWhitelist domain st = st\<lparr>whitelist := insert (toLowerCase domain) (whitelist st)\<rparr>"

definition removeFromWhitelist :: "string \<Rightarrow> state \<Rightarrow> state" where
  "removeFromWhitelist domain st = st\<lparr>whitelist := whitelist st - {toLowerCase domain}\<rparr>"

definition clearCache :: "state \<Rightarrow> state" where
  "clearCache st = st\<lparr>cache := []\<rparr>"

text \<open>The two verdicts that analyze writes out as literals.\<close>

definition whitelist_verdict :: "string \<Rightarrow> int \<Rightarrow> ThreatAnalysisResult" where
  "whitelist_verdict normalizedUrl now =
     \<lparr>url = normalizedUrl, isMalicious = False, riskScore = 0, riskLevel = Safe,
      detectionLayers = [signal Signature ''Whitelist'' 0 ''Domain is whitelisted'' False],
      timestamp = now, result_details = ''Whitelisted domain''\<rparr>"

fun message :: "exn \<Rightarrow> string" where
  "message (TypeError msg) = msg"

definition error_verdict :: "string \<Rightarrow> exn \<Rightarrow> int \<Rightarrow> ThreatAnalysisResult" where
  "error_verdict u e now =
     \<lparr>url = u, isMalicious = False, riskScore = 0, riskLevel = Safe,
      detectionLayers =
        [signal Signature ''Error Handler'' 0 (''Analysis error: '' @ message e) False],
      timestamp = now, result_details = ''Error during analysis''\<rparr>"

text \<open>buildResult of src/detection/threat-analyzer.ts. Its loop adds the scores of the
  matched layers and stops at the first matched signature layer.\<close>

fun score_loop :: "DetectionLayer list \<Rightarrow> int \<Rightarrow> bool \<times> int" where
  "score_loop [] totalScore = (False, totalScore)"
| "score_loop (l # ls) totalScore =
     (if layer l = Signature \<and> matched l then (True, 100)
      else score_loop ls (if matched l then totalScore + score l else totalScore))"

definition buildResult :: "string \<Rightarrow> DetectionLayer list \<Rightarrow> int \<Rightarrow> ThreatAnalysisResult" where
  "buildResult u layers now =
     (let (signatureMatched, totalScore) = score_loop layers 0;
          totalScore = min 100 totalScore;
          totalScore = (if signatureMatched then 100 else totalScore);
          level = getRiskLevel totalScore;
          malicious = (level = High \<or> level = Critical);
          matchedLayers = filter matched layers;
          text = (if length matchedLayers > 0
                  then ''Detected by: '' @ join '', '' (map method_name matchedLayers)
                  else ''No threats detected'')
      in \<lparr>url = u, isMalicious = malicious, riskScore = totalScore, riskLevel = level,
          detectionLayers = layers, timestamp = now, result_details = text\<rparr>)"

text \<open>analyze of src/detection/threat-analyzer.ts. \<open>now\<close> is the reading of the clock
  during the call. The catch block is the \<open>Inl\<close> branch of each step that can throw.\<close>

definition analyze :: "platform \<Rightarrow> int \<Rightarrow> state \<Rightarrow> string \<Rightarrow> ThreatAnalysisResult \<times> state" where
  "analyze env now st u =
     (let normalizedUrl = normalizeURL env u
      in case new_URL env normalizedUrl of
           Inl e \<Rightarrow> (error_verdict u e now, st)
         | Inr urlObj \<Rightarrow>
             if hostname urlObj \<in> whitelist st then (whitelist_verdict normalizedUrl now, st)
             else
               (let cached = map_of (cache st) normalizedUrl
                in if (case cached of None \<Rightarrow> False
                       | Some c \<Rightarrow> now - entry_timestamp c < CACHE_SAFE_URL_TTL) then
                     (result (the cached), st)
                   else
                     (let (signatureLayers, st1) = checkAllAPIs env now st normalizedUrl
                      in if length signatureLayers > 0 \<and> list_ex matched signatureLayers then
                           (let r = buildResult normalizedUrl signatureLayers now
                            in (r, cacheResult now normalizedUrl r st1))
                         else
                           (case HeuristicEngine_analyze env normalizedUrl of
                              Inl e \<Rightarrow> (error_verdict u e now, st1)
                            | Inr heuristicLayers \<Rightarrow>
                                (let mlLayer = MLEngine_analyze env normalizedUrl;
                                     allLayers = signatureLayers @ heuristicLayers @ [mlLayer];
                                     r = buildResult normalizedUrl allLayers now
                                 in (r, cacheResult now normalizedUrl r st1))))))"

section \<open>The revised ThreatAnalyzer (src/unnamed/part_002)\<close>

text \<open>The repository holds a second ThreatAnalyzer, whose header comment says that all
  detection layers still run when an external service flags the URL. Its \<open>getRiskLevel\<close>,
  \<open>normalizeURL\<close>, \<open>cacheResult\<close> and whitelist functions are those above, word for
  word; \<open>buildResult\<close> and \<open>analyze\<close> differ and are modelled here.\<close>

definition isExternalAPI :: "DetectionLayer \<Rightarrow> bool" where
  "isExternalAPI l =
     (layer l = Signature
      \<and> (str_includes (method_name l) ''VirusTotal''
           \<or> str_includes (method_name l) ''Google Safe Browsing''
           \<or> str_includes (method_name l) ''PhishTank''))"

fun sum_matched :: "DetectionLayer list \<Rightarrow> int \<Rightarrow> int" where
  "sum_matched [] totalScore = totalScore"
| "sum_matched (l # ls) totalScore =
     sum_matched ls (if matched l then totalScore + score l else totalScore)"

definition buildResult_rev :: "string \<Rightarrow> DetectionLayer list \<Rightarrow> int \<Rightarrow> ThreatAnalysisResult" where
  "buildResult_rev u layers now =
     (let externalAPILayers = filter isExternalAPI layers;
          otherLayers = filter (\<lambda>l. l \<notin> set externalAPILayers) layers;
          externalAPIDetected = list_ex matched externalAPILayers
      in if externalAPIDetected then
           (let matchedAPIs = filter matched externalAPILayers;
                otherMatched = filter matched otherLayers;
                text = ''Flagged by external threat intelligence: ''
                         @ join '', '' (map method_name matchedAPIs)
                         @ (if length otherMatched > 0
                            then '' | Also detected by: ''
                                   @ join '', '' (map method_name otherMatched)
                            else [])
            in \<lparr>url = u, isMalicious = True, riskScore = 100, riskLevel = Critical,
                detectionLayers = layers, timestamp = now, result_details = text\<rparr>)
         else
           (let totalScore = min 100 (sum_matched layers 0);
                level = getRiskLevel totalScore;
                malicious = (level = High \<or> level = Critical);
                matchedLayers = filter matched layers;
                text = (if length matchedLayers > 0
                        then ''Detected by: '' @ join '', '' (map method_name matchedLayers)
                        else ''No threats detected'')
                       @ (if length externalAPILayers > 0
                          then '' | External threat intelligence: Clean'' else [])
            in \<lparr>url = u, isMalicious = malicious, riskScore = totalScore, riskLevel = level,
                detectionLayers = layers, timestamp = now, result_details = text\<rparr>))"

definition analyze_rev :: "platform \<Rightarrow> int \<Rightarrow> state \<Rightarrow> string \<Rightarrow> ThreatAnalysisResult \<times> state" where
  "analyze_rev env now st u =
     (let normalizedUrl = normalizeURL env u
      in case new_URL env normalizedUrl of
           Inl e \<Rightarrow> (error_verdict u e now, st)
         | Inr urlObj \<Rightarrow>
             if hostname urlObj \<in> whitelist st then (whitelist_verdict normalizedUrl now, st)
             else
               (let cached = map_of (cache st) normalizedUrl
                in if (case cached of None \<Rightarrow> False
                       | Some c \<Rightarrow> now - entry_timestamp c < CACHE_SAFE_URL_TTL) then
                     (result (the cached), st)
                   else
                     (let (signatureLayers, st1) = checkAllAPIs env now st normalizedUrl
                      in case HeuristicEngine_analyze env normalizedUrl of
                           Inl e \<Rightarrow> (error_verdict u e now, st1)
                         | Inr heuristicLayers \<Rightarrow>
                             (let mlLayer = MLEngine_analyze env normalizedUrl;
                                  allLayers = signatureLayers @ heuristicLayers @ [mlLayer];
                                  r = buildResult_rev normalizedUrl allLayers now
                              in (r, cacheResult now normalizedUrl r st1)))))"

section \<open>A concrete platform\<close>

text \<open>A model of the browser's URL parser on the URLs \<open>http(s)://host/path?query#fragment\<close>
  whose host is made of letters, digits, hyphens and dots, without credentials, port,
  dot segments or characters that the parser would escape. On these it gives the
  components and the serialisation that the parser gives; every other string is
  answered with the parser's TypeError. The theorems below hold for every platform; this
  one is where they are evaluated.\<close>

definition is_host_char :: "char \<Rightarrow> bool" where
  "is_host_char c = (is_lower c \<or> is_digit c \<or> c = CHR ''-'' \<or> c = CHR ''.'')"

definition simple_URL :: "string \<Rightarrow> exn + URL" where
  "simple_URL s =
     (let scheme = (if startsWith (toLowerCase s) ''https://'' then ''https:''
                    else if startsWith (toLowerCase s) ''http://'' then ''http:'' else []);
          rest = drop (length scheme + 2) s;
          host = toLowerCase (takeWhile (\<lambda>c. c \<notin> set ''/?#'') rest);
          after_host = dropWhile (\<lambda>c. c \<notin> set ''/?#'') rest;
          path = takeWhile (\<lambda>c. c \<notin> set ''?#'') after_host;
          after_path = dropWhile (\<lambda>c. c \<notin> set ''?#'') after_host;
          query = takeWhile (\<lambda>c. c \<noteq> CHR ''#'') after_path;
          after_query = dropWhile (\<lambda>c. c \<noteq> CHR ''#'') after_path
      in if scheme = [] \<or> host = [] \<or> \<not> list_all is_host_char host then
           Inl (TypeError ''Invalid URL'')
         else
           Inr \<lparr>protocol = scheme, hostname = host, port = [],
                pathname = (if path = [] then ''/'' else path),
                search = (if query = ''?'' then [] else query),
                href_base = scheme @ ''//'' @ host @ (if path = [] then ''/'' else path) @ query,
                fragment = (case after_query of [] \<Rightarrow> None | c # f \<Rightarrow> Some f)\<rparr>)"

text \<open>A browser with no API keys stored and no network. Its feature extractor reports
  the lengths, the scheme and the number of phishing keywords as the source computes
  them, and the defaults for every other feature.\<close>

definition offline_platform :: platform where
  "offline_platform =
     \<lparr>new_URL = simple_URL,
      storage_get = Some Map.empty,
      fetch_safe_browsing = (\<lambda>u. NetworkError ''Failed to fetch''),
      fetch_phishtank = (\<lambda>u. NetworkError ''Failed to fetch''),
      fetch_virustotal = (\<lambda>u. NetworkError ''Failed to fetch''),
      features_body =
        (\<lambda>u urlObj. Inr (default_features
           \<lparr>f_length := length u, domainLength := length (hostname urlObj),
            usesHTTPS := (protocol urlObj = ''https:''),
            phishingKeywordCount :=
              length (filter (\<lambda>k. str_includes (toLowerCase u) k) PHISHING_KEYWORDS)\<rparr>))\<rparr>"

definition initial_state :: state where
  "initial_state =
     \<lparr>cache = [], whitelist = {}, safeBrowsingCache = Map.empty,
      rateLimitCounters = Map.empty\<rparr>"

text \<open>A browser with the three keys stored, in which Safe Browsing reports one match,
  PhishTank answers with status 503 and VirusTotal counts two malicious and one
  suspicious verdict; and a state in which the Safe Browsing quota of the running window
  is used up.\<close>

definition online_platform :: platform where
  "online_platform =
     offline_platform
       \<lparr>storage_get :=
          Some [''LS_GOOGLE_SAFE_BROWSING'' \<mapsto> ''key-1'', ''LS_VIRUSTOTAL'' \<mapsto> ''key-2'',
                ''LS_PHISHTANK'' \<mapsto> ''key-3''],
        fetch_safe_browsing := (\<lambda>u. Body 1),
        fetch_phishtank := (\<lambda>u. HttpStatus 503),
        fetch_virustotal := (\<lambda>u. Body (2, 1))\<rparr>"

definition exhausted_state :: state where
  "exhausted_state =
     initial_state
       \<lparr>rateLimitCounters := [''safe_browsing'' \<mapsto> \<lparr>count = 60, resetTime = 60000\<rparr>]\<rparr>"

section \<open>Notions used in the statements\<close>

text \<open>The cache holds a result for the key that is younger than the time to live.\<close>

definition cache_hit :: "state \<Rightarrow> int \<Rightarrow> string \<Rightarrow> bool" where
  "cache_hit st now n =
     (case map_of (cache st) n of None \<Rightarrow> False
      | Some c \<Rightarrow> now - entry_timestamp c < CACHE_SAFE_URL_TTL)"

text \<open>Every cached result has the property.\<close>

definition cache_all :: "(ThreatAnalysisResult \<Rightarrow> bool) \<Rightarrow> state \<Rightarrow> bool" where
  "cache_all P st = list_all (\<lambda>(k, e). P (result e)) (cache st)"

text \<open>The trust-priority rule, read off a result: a matched signature signal among its
  signals forces the verdict.\<close>

definition trust_priority :: "ThreatAnalysisResult \<Rightarrow> bool" where
  "trust_priority r =
     (list_ex (\<lambda>l. layer l = Signature \<and> matched l) (detectionLayers r) \<longrightarrow>
        riskScore r = 100 \<and> riskLevel r = Critical \<and> isMalicious r)"

definition score_in_range :: "ThreatAnalysisResult \<Rightarrow> bool" where
  "score_in_range r = (0 \<le> riskScore r \<and> riskScore r \<le> 100)"

text \<open>The verdict of the catch block and the verdict of the whitelist, recognised by
  their single signal.\<close>

definition is_error_verdict :: "ThreatAnalysisResult \<Rightarrow> bool" where
  "is_error_verdict r = (map method_name (detectionLayers r) = [''Error Handler''])"

definition is_whitelist_verdict :: "ThreatAnalysisResult \<Rightarrow> bool" where
  "is_whitelist_verdict r = (map method_name (detectionLayers r) = [''Whitelist''])"

text \<open>A result that is neither of the two.\<close>

definition produced_by_layers :: "ThreatAnalysisResult \<Rightarrow> bool" where
  "produced_by_layers r = (\<not> is_error_verdict r \<and> \<not> is_whitelist_verdict r)"

text \<open>The Safe Browsing cache of the gateway holds a fresh answer for the URL; the rate
  limiter lets a call to the service pass.\<close>

definition sb_fresh :: "state \<Rightarrow> int \<Rightarrow> string \<Rightarrow> bool" where
  "sb_fresh st now u =
     (case safeBrowsingCache st u of None \<Rightarrow> False
      | Some c \<Rightarrow> now - sb_timestamp c < CACHE_SAFE_URL_TTL)"

definition within_limit :: "int \<Rightarrow> string \<Rightarrow> nat \<Rightarrow> state \<Rightarrow> bool" where
  "within_limit now service limit st =
     fst (checkRateLimit now service limit (rateLimitCounters st))"

section \<open>Auxiliary facts\<close>

lemma lower_char_idem: "lower_char (lower_char c) = lower_char c"
  by (auto simp: lower_char_def Let_def)

lemma toLowerCase_idem: "toLowerCase (toLowerCase s) = toLowerCase s"
  by (simp add: toLowerCase_def lower_char_idem)

lemma settled_layers_shape:
  "\<exists>l. settled_layers i r = [l] \<and> layer l = Signature \<and> (score l = 0 \<or> score l = 100)
        \<and> (matched l \<longrightarrow> score l = 100)
        \<and> (matched l \<longleftrightarrow> (\<exists>a. r = Fulfilled a \<and> success a \<and> malicious a))"
  by (cases r) (auto simp: settled_layers_def signal_def Let_def)

lemma checkAllAPIs_layers:
  "fst (checkAllAPIs env now st u) =
     settled_layers 0 (Fulfilled (fst (checkSafeBrowsing env now st u)))
   @ settled_layers 1 (Fulfilled (checkPhishTank env u))
   @ settled_layers 2 (Fulfilled (fst (checkVirusTotal env now (snd (checkSafeBrowsing env now st u)) u)))"
  by (simp add: checkAllAPIs_def numeral_2_eq_2 split: prod.splits)

lemma checkSafeBrowsing_cache:
  "cache (snd (checkSafeBrowsing env now st u)) = cache st
   \<and> whitelist (snd (checkSafeBrowsing env now st u)) = whitelist st"
  by (simp add: checkSafeBrowsing_def Let_def split: prod.splits fetched.splits)

lemma checkVirusTotal_cache:
  "cache (snd (checkVirusTotal env now st u)) = cache st
   \<and> whitelist (snd (checkVirusTotal env now st u)) = whitelist st"
  by (simp add: checkVirusTotal_def Let_def split: prod.splits fetched.splits)

lemma checkAllAPIs_snd:
  "snd (checkAllAPIs env now st u) = snd (checkVirusTotal env now (snd (checkSafeBrowsing env now st u)) u)"
  by (simp add: checkAllAPIs_def split: prod.splits)

lemma checkAllAPIs_cache:
  "cache (snd (checkAllAPIs env now st u)) = cache st"
  by (simp add: checkAllAPIs_snd checkVirusTotal_cache checkSafeBrowsing_cache)

lemma list_all_push_if [simp]: "list_all P (push_if c x) = (c \<longrightarrow> P x)"
  by (simp add: push_if_def)

lemma heuristic_layers_scores:
  "list_all (\<lambda>l. layer l = Heuristic \<and> matched l \<and> 0 \<le> score l) (heuristic_layers f u obj)"
  unfolding heuristic_layers_def Let_def
  by (simp add: signal_def WEIGHT_defs split: option.splits)

lemma predict_range: "0 \<le> fst (predict v) \<and> fst (predict v) \<le> 100"
  by (simp add: predict_def Let_def)

lemma MLEngine_analyze_shape:
  "layer (MLEngine_analyze env u) = MachineLearning \<and> 0 \<le> score (MLEngine_analyze env u)
   \<and> score (MLEngine_analyze env u) \<le> 100"
  using predict_range[of "extractMLFeatures env u"]
  by (simp add: MLEngine_analyze_def Let_def signal_def)


lemma HeuristicEngine_analyze_parsed:
  "new_URL env n = Inr obj \<Longrightarrow>
   HeuristicEngine_analyze env n = Inr (heuristic_layers (extractFeatures env n) n obj)"
  by (simp add: HeuristicEngine_analyze_def)

lemma analyze_cases [case_names error whitelisted cached early full]:
  fixes env now st u
  defines "n \<equiv> normalizeURL env u"
  obtains
    e where "new_URL env n = Inl e" "analyze env now st u = (error_verdict u e now, st)"
  | obj where "new_URL env n = Inr obj" "hostname obj \<in> whitelist st"
      "analyze env now st u = (whitelist_verdict n now, st)"
  | obj c where "new_URL env n = Inr obj" "hostname obj \<notin> whitelist st"
      "map_of (cache st) n = Some c" "now - entry_timestamp c < CACHE_SAFE_URL_TTL"
      "analyze env now st u = (result c, st)"
  | obj sigs st1 where "new_URL env n = Inr obj" "hostname obj \<notin> whitelist st"
      "\<not> cache_hit st now n" "checkAllAPIs env now st n = (sigs, st1)" "list_ex matched sigs"
      "analyze env now st u =
         (buildResult n sigs now, cacheResult now n (buildResult n sigs now) st1)"
  | obj sigs st1 where "new_URL env n = Inr obj" "hostname obj \<notin> whitelist st"
      "\<not> cache_hit st now n" "checkAllAPIs env now st n = (sigs, st1)" "\<not> list_ex matched sigs"
      "analyze env now st u =
         (buildResult n (sigs @ heuristic_layers (extractFeatures env n) n obj
                           @ [MLEngine_analyze env n]) now,
          cacheResult now n
            (buildResult n (sigs @ heuristic_layers (extractFeatures env n) n obj
                              @ [MLEngine_analyze env n]) now) st1)"
proof (cases "new_URL env n")
  case (Inl e)
  then have "analyze env now st u = (error_verdict u e now, st)"
    by (simp add: analyze_def n_def)
  with Inl show ?thesis using that(1) by blast
next
  case (Inr obj)
  show ?thesis
  proof (cases "hostname obj \<in> whitelist st")
    case True
    with Inr have "analyze env now st u = (whitelist_verdict n now, st)"
      by (simp add: analyze_def n_def)
    with Inr True show ?thesis using that(2) by blast
  next
    case nw: False
    show ?thesis
    proof (cases "cache_hit st now n")
      case True
      then obtain c where c: "map_of (cache st) n = Some c"
        "now - entry_timestamp c < CACHE_SAFE_URL_TTL"
        by (auto simp: cache_hit_def split: option.splits)
      with Inr nw have "analyze env now st u = (result c, st)"
        by (simp add: analyze_def n_def[symmetric])
      with Inr nw c show ?thesis using that(3) by blast
    next
      case miss: False
      obtain sigs st1 where sg: "checkAllAPIs env now st n = (sigs, st1)"
        by (cases "checkAllAPIs env now st n")
      have miss': "\<not> (case map_of (cache st) n of None \<Rightarrow> False
                     | Some c \<Rightarrow> now - entry_timestamp c < CACHE_SAFE_URL_TTL)"
        using miss by (simp add: cache_hit_def)
      show ?thesis
      proof (cases "list_ex matched sigs")
        case True
        then have "sigs \<noteq> []" by auto
        with Inr nw miss' sg True
        have "analyze env now st u =
               (buildResult n sigs now, cacheResult now n (buildResult n sigs now) st1)"
          by (simp add: analyze_def n_def[symmetric] Let_def)
        with Inr nw miss sg True show ?thesis using that(4) by blast
      next
        case False
        with Inr nw miss' sg HeuristicEngine_analyze_parsed[OF Inr]
        have "analyze env now st u =
         (buildResult n (sigs @ heuristic_layers (extractFeatures env n) n obj
                           @ [MLEngine_analyze env n]) now,
          cacheResult now n
            (buildResult n (sigs @ heuristic_layers (extractFeatures env n) n obj
                              @ [MLEngine_analyze env n]) now) st1)"
          by (simp add: analyze_def n_def[symmetric] Let_def)
        with Inr nw miss sg False show ?thesis using that(5) by blast
      qed
    qed
  qed
qed


lemma score_loop_fst:
  "fst (score_loop ls t) = list_ex (\<lambda>l. layer l = Signature \<and> matched l) ls"
  by (induction ls arbitrary: t) auto

lemma score_loop_snd_nonneg:
  "list_all (\<lambda>l. matched l \<longrightarrow> 0 \<le> score l) ls \<Longrightarrow> 0 \<le> t \<Longrightarrow> 0 \<le> snd (score_loop ls t)"
  by (induction ls arbitrary: t) auto

lemma buildResult_layers [simp]: "detectionLayers (buildResult u ls now) = ls"
  by (simp add: buildResult_def Let_def split: prod.splits)

lemma buildResult_score:
  "riskScore (buildResult u ls now) =
     (if fst (score_loop ls 0) then 100 else min 100 (snd (score_loop ls 0)))"
  by (simp add: buildResult_def Let_def split: prod.splits)

lemma buildResult_level:
  "riskLevel (buildResult u ls now) = getRiskLevel (riskScore (buildResult u ls now))
   \<and> isMalicious (buildResult u ls now)
       = (riskLevel (buildResult u ls now) = High \<or> riskLevel (buildResult u ls now) = Critical)"
  by (simp add: buildResult_def Let_def split: prod.splits)

lemma getRiskLevel_100: "getRiskLevel 100 = Critical"
  by (simp add: getRiskLevel_def RISK_THRESHOLDS_defs)

lemma buildResult_trust_priority: "trust_priority (buildResult u ls now)"
  using buildResult_level[of u ls now]
  by (simp add: trust_priority_def buildResult_score score_loop_fst getRiskLevel_100)

lemma buildResult_in_range:
  "list_all (\<lambda>l. matched l \<longrightarrow> 0 \<le> score l) ls \<Longrightarrow> score_in_range (buildResult u ls now)"
  using score_loop_snd_nonneg[of ls 0]
  by (simp add: score_in_range_def buildResult_score)

lemma sum_matched_mono:
  "list_all (\<lambda>l. matched l \<longrightarrow> 0 \<le> score l) ls \<Longrightarrow> t \<le> sum_matched ls t"
proof (induction ls arbitrary: t)
  case Nil
  then show ?case by simp
next
  case (Cons l ls)
  then have "(if matched l then t + score l else t) \<le> sum_matched (l # ls) t"
    by simp
  moreover from Cons.prems have "t \<le> (if matched l then t + score l else t)"
    by simp
  ultimately show ?case by linarith
qed

lemma sum_matched_signature:
  "list_all (\<lambda>l. matched l \<longrightarrow> 0 \<le> score l) ls \<Longrightarrow>
   list_ex (\<lambda>l. matched l \<and> score l = 100) ls \<Longrightarrow> t + 100 \<le> sum_matched ls t"
proof (induction ls arbitrary: t)
  case Nil
  then show ?case by simp
next
  case (Cons l ls)
  show ?case
  proof (cases "matched l \<and> score l = 100")
    case True
    with Cons.prems(1) sum_matched_mono[of ls "t + 100"] show ?thesis by simp
  next
    case False
    with Cons.prems have ex: "list_ex (\<lambda>l. matched l \<and> score l = 100) ls"
      and all: "list_all (\<lambda>l. matched l \<longrightarrow> 0 \<le> score l) ls"
      and l: "matched l \<longrightarrow> 0 \<le> score l"
      by auto
    from Cons.IH[OF all ex, of "if matched l then t + score l else t"] l
    show ?thesis by (auto split: if_splits)
  qed
qed

lemma buildResult_rev_layers [simp]: "detectionLayers (buildResult_rev u ls now) = ls"
  by (simp add: buildResult_rev_def Let_def)

lemma buildResult_rev_in_range:
  "list_all (\<lambda>l. matched l \<longrightarrow> 0 \<le> score l) ls \<Longrightarrow> score_in_range (buildResult_rev u ls now)"
  using sum_matched_mono[of ls 0]
  by (simp add: score_in_range_def buildResult_rev_def Let_def)

lemma buildResult_rev_trust_priority:
  assumes "list_all (\<lambda>l. matched l \<longrightarrow> 0 \<le> score l) ls"
    and "list_all (\<lambda>l. layer l = Signature \<and> matched l \<longrightarrow> score l = 100) ls"
  shows "trust_priority (buildResult_rev u ls now)"
proof (cases "list_ex matched (filter isExternalAPI ls)")
  case True
  then show ?thesis by (simp add: trust_priority_def buildResult_rev_def Let_def)
next
  case False
  show ?thesis
    unfolding trust_priority_def
  proof
    assume "list_ex (\<lambda>l. layer l = Signature \<and> matched l) (detectionLayers (buildResult_rev u ls now))"
    then have "list_ex (\<lambda>l. matched l \<and> score l = 100) ls"
      using assms(2) by (auto simp: list_ex_iff list_all_iff)
    from sum_matched_signature[OF assms(1) this, of 0]
    have "min 100 (sum_matched ls 0) = 100" by simp
    with False show "riskScore (buildResult_rev u ls now) = 100
        \<and> riskLevel (buildResult_rev u ls now) = Critical \<and> isMalicious (buildResult_rev u ls now)"
      by (simp add: buildResult_rev_def Let_def getRiskLevel_100)
  qed
qed

lemma set_AList_update: "set (AList.update k v xs) \<subseteq> insert (k, v) (set xs)"
  by (induction xs) auto

lemma set_fold_delete:
  "set (fold (\<lambda>(k, e) acc. AList.delete k acc) rs c) \<subseteq> set c"
proof (induction rs arbitrary: c)
  case Nil
  then show ?case by simp
next
  case (Cons r rs)
  obtain k e where r: "r = (k, e)" by (cases r)
  have "set (AList.delete k c) \<subseteq> set c" by (auto simp: AList.delete_eq)
  with Cons.IH[of "AList.delete k c"] r show ?case by auto
qed

lemma cacheResult_cache:
  "\<exists>c1. set c1 \<subseteq> set (cache st)
     \<and> cache (cacheResult now n r st) = AList.update n \<lparr>result = r, entry_timestamp = now\<rparr> c1"
proof (cases "length (cache st) \<ge> CACHE_MAX_CACHE_SIZE")
  case True
  let ?rs = "take (CACHE_MAX_CACHE_SIZE div 5) (sort_key (\<lambda>(k, e). entry_timestamp e) (cache st))"
  have "set (fold (\<lambda>(k, e) acc. AList.delete k acc) ?rs (cache st)) \<subseteq> set (cache st)"
    by (rule set_fold_delete)
  moreover from True have "cache (cacheResult now n r st) =
      AList.update n \<lparr>result = r, entry_timestamp = now\<rparr>
        (fold (\<lambda>(k, e) acc. AList.delete k acc) ?rs (cache st))"
    by (simp add: cacheResult_def Let_def)
  ultimately show ?thesis by blast
next
  case False
  then have "cache (cacheResult now n r st) =
      AList.update n \<lparr>result = r, entry_timestamp = now\<rparr> (cache st)"
    by (simp add: cacheResult_def Let_def)
  then show ?thesis by blast
qed

lemma cacheResult_cache_all:
  assumes "P r" and "cache_all P st"
  shows "cache_all P (cacheResult now n r st)"
proof -
  obtain c1 where c1: "set c1 \<subseteq> set (cache st)"
    "cache (cacheResult now n r st) = AList.update n \<lparr>result = r, entry_timestamp = now\<rparr> c1"
    using cacheResult_cache by blast
  have "set (cache (cacheResult now n r st))
          \<subseteq> insert (n, \<lparr>result = r, entry_timestamp = now\<rparr>) (set (cache st))"
    using c1 set_AList_update[of n "\<lparr>result = r, entry_timestamp = now\<rparr>" c1] by auto
  with assms show ?thesis
    by (auto simp: cache_all_def list_all_iff)
qed

lemma cacheResult_other_fields:
  "whitelist (cacheResult now n r st) = whitelist st"
  by (simp add: cacheResult_def Let_def)

lemma analyze_rev_cases [case_names error whitelisted cached full]:
  fixes env now st u
  defines "n \<equiv> normalizeURL env u"
  obtains
    e where "new_URL env n = Inl e" "analyze_rev env now st u = (error_verdict u e now, st)"
  | obj where "new_URL env n = Inr obj" "hostname obj \<in> whitelist st"
      "analyze_rev env now st u = (whitelist_verdict n now, st)"
  | obj c where "new_URL env n = Inr obj" "hostname obj \<notin> whitelist st"
      "map_of (cache st) n = Some c" "now - entry_timestamp c < CACHE_SAFE_URL_TTL"
      "analyze_rev env now st u = (result c, st)"
  | obj sigs st1 where "new_URL env n = Inr obj" "hostname obj \<notin> whitelist st"
      "\<not> cache_hit st now n" "checkAllAPIs env now st n = (sigs, st1)"
      "analyze_rev env now st u =
         (buildResult_rev n (sigs @ heuristic_layers (extractFeatures env n) n obj
                           @ [MLEngine_analyze env n]) now,
          cacheResult now n
            (buildResult_rev n (sigs @ heuristic_layers (extractFeatures env n) n obj
                              @ [MLEngine_analyze env n]) now) st1)"
proof (cases "new_URL env n")
  case (Inl e)
  then have "analyze_rev env now st u = (error_verdict u e now, st)"
    by (simp add: analyze_rev_def n_def)
  with Inl show ?thesis using that(1) by blast
next
  case (Inr obj)
  show ?thesis
  proof (cases "hostname obj \<in> whitelist st")
    case True
    with Inr have "analyze_rev env now st u = (whitelist_verdict n now, st)"
      by (simp add: analyze_rev_def n_def)
    with Inr True show ?thesis using that(2) by blast
  next
    case nw: False
    show ?thesis
    proof (cases "cache_hit st now n")
      case True
      then obtain c where c: "map_of (cache st) n = Some c"
        "now - entry_timestamp c < CACHE_SAFE_URL_TTL"
        by (auto simp: cache_hit_def split: option.splits)
      with Inr nw have "analyze_rev env now st u = (result c, st)"
        by (simp add: analyze_rev_def n_def[symmetric])
      with Inr nw c show ?thesis using that(3) by blast
    next
      case miss: False
      obtain sigs st1 where sg: "checkAllAPIs env now st n = (sigs, st1)"
        by (cases "checkAllAPIs env now st n")
      have miss': "\<not> (case map_of (cache st) n of None \<Rightarrow> False
                     | Some c \<Rightarrow> now - entry_timestamp c < CACHE_SAFE_URL_TTL)"
        using miss by (simp add: cache_hit_def)
      from Inr nw miss' sg HeuristicEngine_analyze_parsed[OF Inr]
      have "analyze_rev env now st u =
         (buildResult_rev n (sigs @ heuristic_layers (extractFeatures env n) n obj
                           @ [MLEngine_analyze env n]) now,
          cacheResult now n
            (buildResult_rev n (sigs @ heuristic_layers (extractFeatures env n) n obj
                              @ [MLEngine_analyze env n]) now) st1)"
        by (simp add: analyze_rev_def n_def[symmetric] Let_def)
      with Inr nw miss sg show ?thesis using that(4) by blast
    qed
  qed
qed

lemma checkAllAPIs_shape:
  "length (fst (checkAllAPIs env now st u)) = 3
   \<and> list_all (\<lambda>l. layer l = Signature \<and> (score l = 0 \<or> score l = 100)
                  \<and> (matched l \<longrightarrow> score l = 100)) (fst (checkAllAPIs env now st u))"
proof -
  obtain a where a: "settled_layers 0 (Fulfilled (fst (checkSafeBrowsing env now st u))) = [a]"
    "layer a = Signature" "score a = 0 \<or> score a = 100" "matched a \<longrightarrow> score a = 100"
    using settled_layers_shape by blast
  obtain b where b: "settled_layers 1 (Fulfilled (checkPhishTank env u)) = [b]"
    "layer b = Signature" "score b = 0 \<or> score b = 100" "matched b \<longrightarrow> score b = 100"
    using settled_layers_shape by blast
  obtain c where c: "settled_layers 2 (Fulfilled (fst (checkVirusTotal env now
        (snd (checkSafeBrowsing env now st u)) u))) = [c]"
    "layer c = Signature" "score c = 0 \<or> score c = 100" "matched c \<longrightarrow> score c = 100"
    using settled_layers_shape by blast
  show ?thesis
    using a b c by (simp add: checkAllAPIs_layers)
qed

lemma collected_layers_scores:
  assumes "checkAllAPIs env now st n = (sigs, st1)"
  shows "list_all (\<lambda>l. matched l \<longrightarrow> 0 \<le> score l) (sigs @ heuristic_layers f n obj @ [MLEngine_analyze env n])"
    and "list_all (\<lambda>l. layer l = Signature \<and> matched l \<longrightarrow> score l = 100)
           (sigs @ heuristic_layers f n obj @ [MLEngine_analyze env n])"
    and "list_all (\<lambda>l. matched l \<longrightarrow> 0 \<le> score l) sigs"
proof -
  from checkAllAPIs_shape[of env now st n] assms
  have s: "list_all (\<lambda>l. layer l = Signature \<and> (score l = 0 \<or> score l = 100)
                  \<and> (matched l \<longrightarrow> score l = 100)) sigs"
    by simp
  have h: "list_all (\<lambda>l. layer l = Heuristic \<and> matched l \<and> 0 \<le> score l) (heuristic_layers f n obj)"
    by (rule heuristic_layers_scores)
  note m = MLEngine_analyze_shape[of env n]
  show "list_all (\<lambda>l. matched l \<longrightarrow> 0 \<le> score l) (sigs @ heuristic_layers f n obj @ [MLEngine_analyze env n])"
    using s h m by (auto simp: list_all_iff)
  show "list_all (\<lambda>l. layer l = Signature \<and> matched l \<longrightarrow> score l = 100)
           (sigs @ heuristic_layers f n obj @ [MLEngine_analyze env n])"
    using s h m by (auto simp: list_all_iff)
  show "list_all (\<lambda>l. matched l \<longrightarrow> 0 \<le> score l) sigs"
    using s by (auto simp: list_all_iff)
qed

lemma verdict_facts:
  "trust_priority (error_verdict u e now)" "trust_priority (whitelist_verdict n now)"
  "score_in_range (error_verdict u e now)" "score_in_range (whitelist_verdict n now)"
  by (simp_all add: trust_priority_def score_in_range_def error_verdict_def whitelist_verdict_def signal_def)

lemma cache_all_lookup:
  "cache_all P st \<Longrightarrow> map_of (cache st) n = Some c \<Longrightarrow> P (result c)"
  by (auto simp: cache_all_def list_all_iff dest: map_of_SomeD)

lemma cache_all_checkAllAPIs:
  "checkAllAPIs env now st n = (sigs, st1) \<Longrightarrow> cache_all P st1 = cache_all P st"
  using checkAllAPIs_cache[of env now st n] by (simp add: cache_all_def)

lemma normalizeURL_parser_only:
  "new_URL env' = new_URL env \<Longrightarrow> normalizeURL env' u = normalizeURL env u"
  by (simp add: normalizeURL_def)

lemma analyze_whitelisted:
  assumes "new_URL env (normalizeURL env u) = Inr urlObj" and "hostname urlObj \<in> whitelist st"
  shows "analyze env now st u = (whitelist_verdict (normalizeURL env u) now, st)"
  using assms by (simp add: analyze_def)

lemma pipeline_not_failopen:
  assumes "checkAllAPIs env now st n = (sigs, st1)"
  shows "\<not> is_error_verdict (buildResult m (sigs @ rest) t)"
    and "\<not> is_whitelist_verdict (buildResult m (sigs @ rest) t)"
proof -
  from checkAllAPIs_shape[of env now st n] assms have len: "length sigs = 3" by simp
  show "\<not> is_error_verdict (buildResult m (sigs @ rest) t)"
  proof
    assume "is_error_verdict (buildResult m (sigs @ rest) t)"
    then have "length (map method_name (detectionLayers (buildResult m (sigs @ rest) t)))
                 = length [''Error Handler'']"
      unfolding is_error_verdict_def by (rule arg_cong)
    with len show False by simp
  qed
  show "\<not> is_whitelist_verdict (buildResult m (sigs @ rest) t)"
  proof
    assume "is_whitelist_verdict (buildResult m (sigs @ rest) t)"
    then have "length (map method_name (detectionLayers (buildResult m (sigs @ rest) t)))
                 = length [''Whitelist'']"
      unfolding is_whitelist_verdict_def by (rule arg_cong)
    with len show False by simp
  qed
qed

section \<open>Risk-level mapping\<close>

text \<open>C6: getRiskLevel is a function of the score alone, it is monotonically
  non-decreasing in the order Safe < Low < Medium < High < Critical, and the boundary
  scores map as 24 to Safe, 25 and 39 to Low, 40 and 59 to Medium, 60 and 84 to High,
  85 to Critical.\<close>

theorem getRiskLevel_monotone_boundaries:
  "(\<forall>s1 s2. s1 \<le> s2 \<longrightarrow> level_rank (getRiskLevel s1) \<le> level_rank (getRiskLevel s2))
   \<and> getRiskLevel 24 = Safe \<and> getRiskLevel 25 = Low \<and> getRiskLevel 39 = Low
   \<and> getRiskLevel 40 = Medium \<and> getRiskLevel 59 = Medium
   \<and> getRiskLevel 60 = High \<and> getRiskLevel 84 = High \<and> getRiskLevel 85 = Critical"
  by (simp add: getRiskLevel_def RISK_THRESHOLDS_defs)

theorem getRiskLevel_monotone_boundaries_witness:
  "(24::int) \<le> 25 \<and> level_rank (getRiskLevel 24) \<le> level_rank (getRiskLevel 25)
   \<and> getRiskLevel 24 = Safe \<and> getRiskLevel 25 = Low"
  using getRiskLevel_monotone_boundaries by simp

section \<open>The trust-priority invariant\<close>

text \<open>C1: in every result that analyze produces from the signals it collected, a
  signature signal with \<open>matched = true\<close> forces \<open>riskScore = 100\<close>, \<open>riskLevel =
  Critical\<close> and \<open>isMalicious = true\<close>, whatever the other signals are. This holds of
  buildResult in src/detection/threat-analyzer.ts for every list of signals, and of both
  versions of analyze on every path, the cached one included: if every cached result
  obeys the rule, so does the returned result and every result in the cache afterwards.\<close>

theorem trust_priority_invariant:
  assumes "cache_all trust_priority st"
  shows "(\<forall>n ls t. trust_priority (buildResult n ls t))
       \<and> trust_priority (fst (analyze env now st u))
       \<and> cache_all trust_priority (snd (analyze env now st u))
       \<and> trust_priority (fst (analyze_rev env now st u))
       \<and> cache_all trust_priority (snd (analyze_rev env now st u))"
proof -
  have old: "trust_priority (fst (analyze env now st u))
       \<and> cache_all trust_priority (snd (analyze env now st u))"
  proof (cases rule: analyze_cases[of env u now st])
    case (error e)
    with assms show ?thesis by (simp add: verdict_facts)
  next
    case (whitelisted obj)
    with assms show ?thesis by (simp add: verdict_facts)
  next
    case (cached obj c)
    with assms cache_all_lookup[OF assms cached(3)] show ?thesis by simp
  next
    case (early obj sigs st1)
    with assms cache_all_checkAllAPIs[OF early(4)] show ?thesis
      by (simp add: buildResult_trust_priority cacheResult_cache_all)
  next
    case (full obj sigs st1)
    with assms cache_all_checkAllAPIs[OF full(4)] show ?thesis
      by (simp add: buildResult_trust_priority cacheResult_cache_all)
  qed
  have rev: "trust_priority (fst (analyze_rev env now st u))
       \<and> cache_all trust_priority (snd (analyze_rev env now st u))"
  proof (cases rule: analyze_rev_cases[of env u now st])
    case (error e)
    with assms show ?thesis by (simp add: verdict_facts)
  next
    case (whitelisted obj)
    with assms show ?thesis by (simp add: verdict_facts)
  next
    case (cached obj c)
    with assms cache_all_lookup[OF assms cached(3)] show ?thesis by simp
  next
    case (full obj sigs st1)
    have "trust_priority (buildResult_rev (normalizeURL env u)
        (sigs @ heuristic_layers (extractFeatures env (normalizeURL env u)) (normalizeURL env u) obj
           @ [MLEngine_analyze env (normalizeURL env u)]) now)"
      by (rule buildResult_rev_trust_priority) (rule collected_layers_scores[OF full(4)])+
    with full assms cache_all_checkAllAPIs[OF full(4)] show ?thesis
      by (simp add: cacheResult_cache_all)
  qed
  from old rev show ?thesis by (simp add: buildResult_trust_priority)
qed

theorem trust_priority_invariant_witness:
  "cache_all trust_priority initial_state
   \<and> list_ex (\<lambda>l. layer l = Signature \<and> matched l)
        (detectionLayers
           (fst (analyze offline_platform 0 initial_state ''http://phishing.example.com/login'')))
   \<and> riskScore (fst (analyze offline_platform 0 initial_state
                      ''http://phishing.example.com/login'')) = 100
   \<and> riskLevel (fst (analyze offline_platform 0 initial_state
                      ''http://phishing.example.com/login'')) = Critical
   \<and> isMalicious (fst (analyze offline_platform 0 initial_state
                      ''http://phishing.example.com/login''))"
proof -
  have prem: "cache_all trust_priority initial_state"
    by (simp add: cache_all_def initial_state_def)
  have ev: "list_ex (\<lambda>l. layer l = Signature \<and> matched l)
        (detectionLayers
           (fst (analyze offline_platform 0 initial_state ''http://phishing.example.com/login'')))"
    by code_simp
  from trust_priority_invariant[OF prem, of offline_platform 0
      "''http://phishing.example.com/login''"] ev prem
  show ?thesis by (simp add: trust_priority_def)
qed


section \<open>The score range\<close>

text \<open>C5: every result that analyze produces has \<open>0 \<le> riskScore \<le> 100\<close>: on the
  error path and the whitelist path the score is 0, on the normal path it is a capped sum
  of scores that the three layers produce, none of which is negative, and on the cache
  path it is a result stored by an earlier call. If every cached result is in range, so
  are the returned result and every result in the cache afterwards.\<close>

theorem score_range_invariant:
  assumes "cache_all score_in_range st"
  shows "score_in_range (fst (analyze env now st u))
       \<and> cache_all score_in_range (snd (analyze env now st u))"
proof (cases rule: analyze_cases[of env u now st])
  case (error e)
  with assms show ?thesis by (simp add: verdict_facts)
next
  case (whitelisted obj)
  with assms show ?thesis by (simp add: verdict_facts)
next
  case (cached obj c)
  with assms cache_all_lookup[OF assms cached(3)] show ?thesis by simp
next
  case (early obj sigs st1)
  have "score_in_range (buildResult (normalizeURL env u) sigs now)"
    by (rule buildResult_in_range) (rule collected_layers_scores(3)[OF early(4)])
  with early assms cache_all_checkAllAPIs[OF early(4)] show ?thesis
    by (simp add: cacheResult_cache_all)
next
  case (full obj sigs st1)
  have "score_in_range (buildResult (normalizeURL env u)
        (sigs @ heuristic_layers (extractFeatures env (normalizeURL env u)) (normalizeURL env u) obj
           @ [MLEngine_analyze env (normalizeURL env u)]) now)"
    by (rule buildResult_in_range) (rule collected_layers_scores(1)[OF full(4)])
  with full assms cache_all_checkAllAPIs[OF full(4)] show ?thesis
    by (simp add: cacheResult_cache_all)
qed

theorem score_range_invariant_witness:
  "cache_all score_in_range initial_state
   \<and> 100 < sum_matched (detectionLayers (fst (analyze offline_platform 0 initial_state
          ''http://example.com/login/verify/account/password''))) 0
   \<and> riskScore (fst (analyze offline_platform 0 initial_state
          ''http://example.com/login/verify/account/password'')) = 100
   \<and> score_in_range (fst (analyze offline_platform 0 initial_state
          ''http://example.com/login/verify/account/password''))"
proof -
  have prem: "cache_all score_in_range initial_state"
    by (simp add: cache_all_def initial_state_def)
  have ev: "100 < sum_matched (detectionLayers (fst (analyze offline_platform 0 initial_state
          ''http://example.com/login/verify/account/password''))) 0"
    "riskScore (fst (analyze offline_platform 0 initial_state
          ''http://example.com/login/verify/account/password'')) = 100"
    by code_simp+
  from score_range_invariant[OF prem, of offline_platform 0
      "''http://example.com/login/verify/account/password''"] prem ev
  show ?thesis by simp
qed

text \<open>The same holds of the revised analyze.\<close>

lemma analyze_rev_score_range:
  assumes "cache_all score_in_range st"
  shows "score_in_range (fst (analyze_rev env now st u))
       \<and> cache_all score_in_range (snd (analyze_rev env now st u))"
proof (cases rule: analyze_rev_cases[of env u now st])
  case (error e)
  with assms show ?thesis by (simp add: verdict_facts)
next
  case (whitelisted obj)
  with assms show ?thesis by (simp add: verdict_facts)
next
  case (cached obj c)
  with assms cache_all_lookup[OF assms cached(3)] show ?thesis by simp
next
  case (full obj sigs st1)
  have "score_in_range (buildResult_rev (normalizeURL env u)
        (sigs @ heuristic_layers (extractFeatures env (normalizeURL env u)) (normalizeURL env u) obj
           @ [MLEngine_analyze env (normalizeURL env u)]) now)"
    by (rule buildResult_rev_in_range) (rule collected_layers_scores(1)[OF full(4)])
  with full assms cache_all_checkAllAPIs[OF full(4)] show ?thesis
    by (simp add: cacheResult_cache_all)
qed


section \<open>The whitelist override\<close>

text \<open>C3: when the normalized URL parses and its host name is in the whitelist,
  analyze returns \<open>riskScore = 0\<close>, \<open>riskLevel = Safe\<close>, \<open>isMalicious = false\<close> and
  exactly one signal, which is not matched; and no detection layer runs: the state
  (result cache, rate-limit counters, Safe Browsing cache) is returned as it was, and the
  outcome does not depend on anything of the platform but the URL parser.\<close>

theorem whitelist_override:
  assumes "new_URL env (normalizeURL env u) = Inr urlObj" and "hostname urlObj \<in> whitelist st"
  shows "riskScore (fst (analyze env now st u)) = 0
       \<and> riskLevel (fst (analyze env now st u)) = Safe
       \<and> \<not> isMalicious (fst (analyze env now st u))
       \<and> (\<exists>l. detectionLayers (fst (analyze env now st u)) = [l] \<and> \<not> matched l)
       \<and> snd (analyze env now st u) = st
       \<and> (\<forall>env'. new_URL env' = new_URL env \<longrightarrow> analyze env' now st u = analyze env now st u)"
proof -
  have a: "analyze env now st u = (whitelist_verdict (normalizeURL env u) now, st)"
    by (rule analyze_whitelisted[OF assms])
  have b: "\<forall>env'. new_URL env' = new_URL env \<longrightarrow> analyze env' now st u = analyze env now st u"
  proof (intro allI impI)
    fix env' :: platform
    assume same: "new_URL env' = new_URL env"
    then have n: "normalizeURL env' u = normalizeURL env u"
      by (rule normalizeURL_parser_only)
    with same assms have "analyze env' now st u = (whitelist_verdict (normalizeURL env u) now, st)"
      using analyze_whitelisted[of env' u urlObj st now] by simp
    with a show "analyze env' now st u = analyze env now st u" by simp
  qed
  have c: "riskScore (fst (analyze env now st u)) = 0
       \<and> riskLevel (fst (analyze env now st u)) = Safe
       \<and> \<not> isMalicious (fst (analyze env now st u))
       \<and> (\<exists>l. detectionLayers (fst (analyze env now st u)) = [l] \<and> \<not> matched l)
       \<and> snd (analyze env now st u) = st"
    by (simp add: a whitelist_verdict_def signal_def)
  from b c show ?thesis by blast
qed

theorem whitelist_override_witness:
  "new_URL offline_platform (normalizeURL offline_platform ''https://Example.com/login#top'')
     = Inr \<lparr>protocol = ''https:'', hostname = ''example.com'', port = [],
            pathname = ''/login'', search = [], href_base = ''https://example.com/login'',
            fragment = None\<rparr>
   \<and> hostname \<lparr>protocol = ''https:'', hostname = ''example.com'', port = [],
            pathname = ''/login'', search = [], href_base = ''https://example.com/login'',
            fragment = None\<rparr> \<in> whitelist (addToWhitelist ''example.com'' initial_state)
   \<and> riskScore (fst (analyze offline_platform 0 (addToWhitelist ''example.com'' initial_state)
                      ''https://Example.com/login#top'')) = 0
   \<and> riskLevel (fst (analyze offline_platform 0 (addToWhitelist ''example.com'' initial_state)
                      ''https://Example.com/login#top'')) = Safe
   \<and> snd (analyze offline_platform 0 (addToWhitelist ''example.com'' initial_state)
            ''https://Example.com/login#top'') = addToWhitelist ''example.com'' initial_state"
proof -
  have p: "new_URL offline_platform (normalizeURL offline_platform ''https://Example.com/login#top'')
     = Inr \<lparr>protocol = ''https:'', hostname = ''example.com'', port = [],
            pathname = ''/login'', search = [], href_base = ''https://example.com/login'',
            fragment = None\<rparr>"
    by code_simp
  have w: "hostname \<lparr>protocol = ''https:'', hostname = ''example.com'', port = [],
            pathname = ''/login'', search = [], href_base = ''https://example.com/login'',
            fragment = None\<rparr> \<in> whitelist (addToWhitelist ''example.com'' initial_state)"
    by (simp add: addToWhitelist_def toLowerCase_def lower_char_def)
  from whitelist_override[OF p w, of 0] p w show ?thesis by blast
qed

section \<open>The error verdict and the whitelist verdict are not cached\<close>

text \<open>C10: when analyze returns the Safe/0 verdict of its catch block (recognised by
  its single signal "Error Handler") or the verdict of the whitelist, the result cache is
  left as it was. A URL whose normalized form does not parse takes the catch block with
  the whole state unchanged. And a cache that holds no such verdict holds none after the
  call either, so no later call can replay one from the cache.\<close>

theorem failopen_verdicts_not_cached:
  "(is_error_verdict (fst (analyze env now st u)) \<or> is_whitelist_verdict (fst (analyze env now st u))
      \<longrightarrow> cache (snd (analyze env now st u)) = cache st)
   \<and> (\<forall>e. new_URL env (normalizeURL env u) = Inl e \<longrightarrow>
         analyze env now st u = (error_verdict u e now, st) \<and> is_error_verdict (error_verdict u e now))
   \<and> (cache_all produced_by_layers st \<longrightarrow> cache_all produced_by_layers (snd (analyze env now st u)))"
proof (cases rule: analyze_cases[of env u now st])
  case (error e)
  then show ?thesis by (simp add: is_error_verdict_def error_verdict_def signal_def)
next
  case (whitelisted obj)
  then show ?thesis by simp
next
  case (cached obj c)
  then show ?thesis by simp
next
  case (early obj sigs st1)
  note nf = pipeline_not_failopen[OF early(4), of "normalizeURL env u" "[]" now, simplified]
  from early nf cache_all_checkAllAPIs[OF early(4), of produced_by_layers] show ?thesis
    by (auto simp: cacheResult_cache_all produced_by_layers_def)
next
  case (full obj sigs st1)
  note nf = pipeline_not_failopen[OF full(4), of "normalizeURL env u"
      "heuristic_layers (extractFeatures env (normalizeURL env u)) (normalizeURL env u) obj
         @ [MLEngine_analyze env (normalizeURL env u)]" now]
  from full nf cache_all_checkAllAPIs[OF full(4), of produced_by_layers] show ?thesis
    by (auto simp: cacheResult_cache_all produced_by_layers_def)
qed


theorem failopen_verdicts_not_cached_witness:
  "new_URL offline_platform (normalizeURL offline_platform ''not a url'') = Inl (TypeError ''Invalid URL'')
   \<and> is_error_verdict (fst (analyze offline_platform 0 initial_state ''not a url''))
   \<and> cache_all produced_by_layers initial_state
   \<and> cache (snd (analyze offline_platform 0 initial_state ''not a url'')) = cache initial_state
   \<and> analyze offline_platform 0 initial_state ''not a url''
       = (error_verdict ''not a url'' (TypeError ''Invalid URL'') 0, initial_state)"
proof -
  have p: "new_URL offline_platform (normalizeURL offline_platform ''not a url'')
             = Inl (TypeError ''Invalid URL'')"
    by code_simp
  have v: "is_error_verdict (fst (analyze offline_platform 0 initial_state ''not a url''))"
    by code_simp
  have c: "cache_all produced_by_layers initial_state"
    by (simp add: cache_all_def initial_state_def)
  from failopen_verdicts_not_cached[of offline_platform 0 initial_state "''not a url''"] p v c
  show ?thesis by blast
qed


section \<open>Whitelist matching\<close>

lemma whitelist_verdict_recognised: "is_whitelist_verdict (whitelist_verdict n now)"
  by (simp add: is_whitelist_verdict_def whitelist_verdict_def signal_def)

lemma analyze_whitelist_verdict_iff:
  assumes "new_URL env (normalizeURL env u) = Inr urlObj" and "cache_all produced_by_layers st"
  shows "is_whitelist_verdict (fst (analyze env now st u)) \<longleftrightarrow> hostname urlObj \<in> whitelist st"
proof (cases rule: analyze_cases[of env u now st])
  case (error e)
  with assms show ?thesis by simp
next
  case (whitelisted obj)
  with assms show ?thesis by (simp add: whitelist_verdict_recognised)
next
  case (cached obj c)
  with assms cache_all_lookup[OF assms(2) cached(3)] show ?thesis
    by (simp add: produced_by_layers_def)
next
  case (early obj sigs st1)
  note nf = pipeline_not_failopen(2)[OF early(4), of "normalizeURL env u" "[]" now, simplified]
  from early nf assms show ?thesis by simp
next
  case (full obj sigs st1)
  note nf = pipeline_not_failopen(2)[OF full(4), of "normalizeURL env u"
      "heuristic_layers (extractFeatures env (normalizeURL env u)) (normalizeURL env u) obj
         @ [MLEngine_analyze env (normalizeURL env u)]" now]
  from full nf assms show ?thesis by simp
qed

text \<open>C9: whitelist matching is exact and case-insensitive. addToWhitelist and
  removeFromWhitelist lower-case their argument: adding \<open>d\<close> puts the lower-cased
  \<open>d\<close> into the set and changes nothing else in it, removing \<open>d\<close> takes the
  lower-cased \<open>d\<close> out of the set and changes nothing else in it, and \<open>d\<close> and its
  lower-cased form have the same effect. analyze returns the whitelist
  verdict exactly when the host name of the parsed normalized URL is an element of the
  set (for a cache that holds results of the detection layers only). Adding
  \<open>Example.COM\<close> whitelists \<open>https://example.com/login\<close> and does not whitelist
  \<open>https://www.example.com/login\<close>.\<close>

theorem whitelist_exact_case_insensitive:
  "toLowerCase d \<in> whitelist (addToWhitelist d st)
   \<and> toLowerCase d \<notin> whitelist (removeFromWhitelist d st)
   \<and> addToWhitelist (toLowerCase d) st = addToWhitelist d st
   \<and> removeFromWhitelist (toLowerCase d) st = removeFromWhitelist d st
   \<and> (\<forall>h. h \<in> whitelist (addToWhitelist d st) \<longleftrightarrow> h = toLowerCase d \<or> h \<in> whitelist st)
   \<and> whitelist (addToWhitelist d st) = insert (toLowerCase d) (whitelist st)
   \<and> whitelist (removeFromWhitelist d st) = whitelist st - {toLowerCase d}
   \<and> (new_URL env (normalizeURL env u) = Inr urlObj \<and> cache_all produced_by_layers st \<longrightarrow>
        (is_whitelist_verdict (fst (analyze env now st u)) \<longleftrightarrow> hostname urlObj \<in> whitelist st))
   \<and> is_whitelist_verdict
        (fst (analyze offline_platform 0 (addToWhitelist ''Example.COM'' initial_state)
                ''https://example.com/login''))
   \<and> \<not> is_whitelist_verdict
        (fst (analyze offline_platform 0 (addToWhitelist ''Example.COM'' initial_state)
                ''https://www.example.com/login''))"
proof -
  have a: "toLowerCase d \<in> whitelist (addToWhitelist d st)
   \<and> toLowerCase d \<notin> whitelist (removeFromWhitelist d st)
   \<and> addToWhitelist (toLowerCase d) st = addToWhitelist d st
   \<and> removeFromWhitelist (toLowerCase d) st = removeFromWhitelist d st
   \<and> (\<forall>h. h \<in> whitelist (addToWhitelist d st) \<longleftrightarrow> h = toLowerCase d \<or> h \<in> whitelist st)
   \<and> whitelist (addToWhitelist d st) = insert (toLowerCase d) (whitelist st)
   \<and> whitelist (removeFromWhitelist d st) = whitelist st - {toLowerCase d}"
    by (simp add: addToWhitelist_def removeFromWhitelist_def toLowerCase_idem)
  have b: "new_URL env (normalizeURL env u) = Inr urlObj \<and> cache_all produced_by_layers st \<longrightarrow>
        (is_whitelist_verdict (fst (analyze env now st u)) \<longleftrightarrow> hostname urlObj \<in> whitelist st)"
    using analyze_whitelist_verdict_iff by blast
  have c: "is_whitelist_verdict
        (fst (analyze offline_platform 0 (addToWhitelist ''Example.COM'' initial_state)
                ''https://example.com/login''))"
    by code_simp
  have d: "\<not> is_whitelist_verdict
        (fst (analyze offline_platform 0 (addToWhitelist ''Example.COM'' initial_state)
                ''https://www.example.com/login''))"
    by code_simp
  from a b c d show ?thesis by blast
qed

theorem whitelist_exact_case_insensitive_witness:
  "new_URL offline_platform (normalizeURL offline_platform ''https://www.example.com/login'')
     = Inr \<lparr>protocol = ''https:'', hostname = ''www.example.com'', port = [],
            pathname = ''/login'', search = [], href_base = ''https://www.example.com/login'',
            fragment = None\<rparr>
   \<and> cache_all produced_by_layers (addToWhitelist ''Example.COM'' initial_state)
   \<and> ''example.com'' \<in> whitelist (addToWhitelist ''Example.COM'' initial_state)
   \<and> ''www.example.com'' \<notin> whitelist (addToWhitelist ''Example.COM'' initial_state)
   \<and> \<not> is_whitelist_verdict
        (fst (analyze offline_platform 0 (addToWhitelist ''Example.COM'' initial_state)
                ''https://www.example.com/login''))"
proof -
  have p: "new_URL offline_platform (normalizeURL offline_platform ''https://www.example.com/login'')
     = Inr \<lparr>protocol = ''https:'', hostname = ''www.example.com'', port = [],
            pathname = ''/login'', search = [], href_base = ''https://www.example.com/login'',
            fragment = None\<rparr>"
    by code_simp
  have c: "cache_all produced_by_layers (addToWhitelist ''Example.COM'' initial_state)"
    by (simp add: cache_all_def addToWhitelist_def initial_state_def)
  have m: "''example.com'' \<in> whitelist (addToWhitelist ''Example.COM'' initial_state)"
    "''www.example.com'' \<notin> whitelist (addToWhitelist ''Example.COM'' initial_state)"
  proof -
    have l: "toLowerCase ''Example.COM'' = ''example.com''" by code_simp
    show "''example.com'' \<in> whitelist (addToWhitelist ''Example.COM'' initial_state)"
      "''www.example.com'' \<notin> whitelist (addToWhitelist ''Example.COM'' initial_state)"
      by (simp_all add: addToWhitelist_def initial_state_def l)
  qed
  from whitelist_exact_case_insensitive[where d = "''Example.COM''"
      and st = "addToWhitelist ''Example.COM'' initial_state" and env = offline_platform
      and u = "''https://www.example.com/login''" and now = 0
      and urlObj = "\<lparr>protocol = ''https:'', hostname = ''www.example.com'', port = [],
            pathname = ''/login'', search = [], href_base = ''https://www.example.com/login'',
            fragment = None\<rparr>"] p c m
  show ?thesis by simp
qed


section \<open>Completeness of the gateway\<close>

lemma settled_layers_matched:
  "matched (hd (settled_layers i (Fulfilled r))) = (success r \<and> malicious r)"
  by (auto simp: settled_layers_def signal_def Let_def)

lemma checkAllAPIs_nth:
  "fst (checkAllAPIs env now st u) ! 0 = hd (settled_layers 0 (Fulfilled (fst (checkSafeBrowsing env now st u))))"
  "fst (checkAllAPIs env now st u) ! 1 = hd (settled_layers 1 (Fulfilled (checkPhishTank env u)))"
  "fst (checkAllAPIs env now st u) ! 2 = hd (settled_layers 2 (Fulfilled (fst (checkVirusTotal env now
        (snd (checkSafeBrowsing env now st u)) u))))"
proof -
  obtain a where a: "settled_layers 0 (Fulfilled (fst (checkSafeBrowsing env now st u))) = [a]"
    using settled_layers_shape by blast
  obtain b where b: "settled_layers 1 (Fulfilled (checkPhishTank env u)) = [b]"
    using settled_layers_shape by blast
  obtain c where c: "settled_layers 2 (Fulfilled (fst (checkVirusTotal env now
        (snd (checkSafeBrowsing env now st u)) u))) = [c]"
    using settled_layers_shape by blast
  show "fst (checkAllAPIs env now st u) ! 0 = hd (settled_layers 0 (Fulfilled (fst (checkSafeBrowsing env now st u))))"
    "fst (checkAllAPIs env now st u) ! 1 = hd (settled_layers 1 (Fulfilled (checkPhishTank env u)))"
    "fst (checkAllAPIs env now st u) ! 2 = hd (settled_layers 2 (Fulfilled (fst (checkVirusTotal env now
        (snd (checkSafeBrowsing env now st u)) u))))"
    using a b c by (simp_all add: checkAllAPIs_layers)
qed

lemma checkSafeBrowsing_flagged:
  "(success (fst (checkSafeBrowsing env now st u)) \<and> malicious (fst (checkSafeBrowsing env now st u)))
   = (if sb_fresh st now u then sb_malicious (the (safeBrowsingCache st u))
      else within_limit now ''safe_browsing'' SAFE_BROWSING_PER_MINUTE st
           \<and> (if GOOGLE_SAFE_BROWSING (getApiKeys env) = YOUR_API_KEY_HERE
                then (\<exists>obj. new_URL env u = Inr obj) \<and> isBlacklisted u
                else (\<exists>n>0. fetch_safe_browsing env u = Body n)))"
  by (auto simp: checkSafeBrowsing_def sb_fresh_def within_limit_def Let_def succeeded_def failed_def
        checkLocalBlacklist_def split: prod.splits fetched.splits sum.splits option.splits)

lemma checkPhishTank_flagged:
  "(success (checkPhishTank env u) \<and> malicious (checkPhishTank env u))
   = (PHISHTANK (getApiKeys env) \<noteq> YOUR_API_KEY_HERE \<and> fetch_phishtank env u = Body (True, True))"
  by (auto simp: checkPhishTank_def succeeded_def failed_def split: fetched.splits)

lemma checkVirusTotal_flagged:
  "(success (fst (checkVirusTotal env now st u)) \<and> malicious (fst (checkVirusTotal env now st u)))
   = (VIRUSTOTAL (getApiKeys env) \<noteq> YOUR_API_KEY_HERE
      \<and> within_limit now ''virustotal'' VIRUSTOTAL_PER_DAY st
      \<and> (\<exists>m s. fetch_virustotal env u = Body (m, s) \<and> m + s > 0))"
  by (auto simp: checkVirusTotal_def within_limit_def Let_def succeeded_def failed_def
        split: prod.splits fetched.splits)

lemma checkRateLimit_entry:
  "c service = c' service \<Longrightarrow>
   fst (checkRateLimit now service limit c) = fst (checkRateLimit now service limit c')"
  by (simp add: checkRateLimit_def split: option.splits)

lemma checkSafeBrowsing_counters:
  "service \<noteq> ''safe_browsing'' \<Longrightarrow>
   rateLimitCounters (snd (checkSafeBrowsing env now st u)) service = rateLimitCounters st service"
  by (auto simp: checkSafeBrowsing_def checkRateLimit_def Let_def
        split: prod.splits fetched.splits option.splits if_splits)

lemma within_limit_after_checkSafeBrowsing:
  "within_limit now ''virustotal'' limit (snd (checkSafeBrowsing env now st u))
   = within_limit now ''virustotal'' limit st"
  unfolding within_limit_def
  by (rule checkRateLimit_entry) (simp add: checkSafeBrowsing_counters)

lemma settled_layers_method:
  "method_name (hd (settled_layers i (Fulfilled r))) = (if success r then source r else apiNames ! i)"
  by (auto simp: settled_layers_def signal_def Let_def)

lemma checkSafeBrowsing_source:
  "(if success (fst (checkSafeBrowsing env now st u))
    then source (fst (checkSafeBrowsing env now st u)) else apiNames ! 0)
   \<in> {''Google Safe Browsing'', ''Google Safe Browsing (cached)'', ''Local Blacklist''}"
  by (auto simp: checkSafeBrowsing_def Let_def succeeded_def failed_def apiNames_def
        checkLocalBlacklist_def split: prod.splits fetched.splits sum.splits option.splits)

lemma checkPhishTank_source:
  "(if success (checkPhishTank env u) then source (checkPhishTank env u) else apiNames ! 1)
   = ''PhishTank''"
  by (auto simp: checkPhishTank_def succeeded_def failed_def apiNames_def split: fetched.splits)

lemma checkVirusTotal_source:
  "(if success (fst (checkVirusTotal env now st u))
    then source (fst (checkVirusTotal env now st u)) else apiNames ! 2) = ''VirusTotal''"
  by (auto simp: checkVirusTotal_def Let_def succeeded_def failed_def apiNames_def
        split: prod.splits fetched.splits)

text \<open>C7: for every URL, every platform and every state, checkAllAPIs returns exactly
  three signals, all of the signature layer, one per service in the order Google Safe
  Browsing, PhishTank, VirusTotal. The signal of a service is matched only when the
  service (or its cache, or the local blacklist that stands in for an unconfigured Safe
  Browsing key) reported the URL as malicious: a rate-limit rejection, a missing key of
  PhishTank or VirusTotal, a failed request, a status that is not ok and an unreadable
  body all give a signal with \<open>matched = false\<close>.\<close>

theorem gateway_completeness:
  "length (fst (checkAllAPIs env now st u)) = 3
   \<and> list_all (\<lambda>l. layer l = Signature) (fst (checkAllAPIs env now st u))
   \<and> method_name (fst (checkAllAPIs env now st u) ! 0)
        \<in> {''Google Safe Browsing'', ''Google Safe Browsing (cached)'', ''Local Blacklist''}
   \<and> method_name (fst (checkAllAPIs env now st u) ! 1) = ''PhishTank''
   \<and> method_name (fst (checkAllAPIs env now st u) ! 2) = ''VirusTotal''
   \<and> (matched (fst (checkAllAPIs env now st u) ! 0) \<longleftrightarrow>
        (if sb_fresh st now u then sb_malicious (the (safeBrowsingCache st u))
         else within_limit now ''safe_browsing'' SAFE_BROWSING_PER_MINUTE st
              \<and> (if GOOGLE_SAFE_BROWSING (getApiKeys env) = YOUR_API_KEY_HERE
                   then (\<exists>obj. new_URL env u = Inr obj) \<and> isBlacklisted u
                   else (\<exists>n>0. fetch_safe_browsing env u = Body n))))
   \<and> (matched (fst (checkAllAPIs env now st u) ! 1) \<longleftrightarrow>
        PHISHTANK (getApiKeys env) \<noteq> YOUR_API_KEY_HERE \<and> fetch_phishtank env u = Body (True, True))
   \<and> (matched (fst (checkAllAPIs env now st u) ! 2) \<longleftrightarrow>
        VIRUSTOTAL (getApiKeys env) \<noteq> YOUR_API_KEY_HERE
        \<and> within_limit now ''virustotal'' VIRUSTOTAL_PER_DAY st
        \<and> (\<exists>m s. fetch_virustotal env u = Body (m, s) \<and> m + s > 0))"
proof -
  have "list_all (\<lambda>l. layer l = Signature) (fst (checkAllAPIs env now st u))"
    using checkAllAPIs_shape[of env now st u] by (auto simp: list_all_iff)
  moreover have "method_name (fst (checkAllAPIs env now st u) ! 0)
        \<in> {''Google Safe Browsing'', ''Google Safe Browsing (cached)'', ''Local Blacklist''}"
    unfolding checkAllAPIs_nth settled_layers_method by (rule checkSafeBrowsing_source)
  moreover have "method_name (fst (checkAllAPIs env now st u) ! 1) = ''PhishTank''"
    unfolding checkAllAPIs_nth settled_layers_method by (rule checkPhishTank_source)
  moreover have "method_name (fst (checkAllAPIs env now st u) ! 2) = ''VirusTotal''"
    unfolding checkAllAPIs_nth settled_layers_method by (rule checkVirusTotal_source)
  ultimately show ?thesis
    using checkAllAPIs_shape[of env now st u]
    by (simp only: checkAllAPIs_nth settled_layers_matched checkSafeBrowsing_flagged
          checkPhishTank_flagged checkVirusTotal_flagged within_limit_after_checkSafeBrowsing)
qed

theorem gateway_completeness_witness:
  "length (fst (checkAllAPIs online_platform 0 exhausted_state ''http://example.com/'')) = 3
   \<and> \<not> sb_fresh exhausted_state 0 ''http://example.com/''
   \<and> \<not> within_limit 0 ''safe_browsing'' SAFE_BROWSING_PER_MINUTE exhausted_state
   \<and> fetch_phishtank online_platform ''http://example.com/'' = HttpStatus 503
   \<and> fetch_virustotal online_platform ''http://example.com/'' = Body (2, 1)
   \<and> map (\<lambda>l. (layer l, method_name l, matched l))
         (fst (checkAllAPIs online_platform 0 exhausted_state ''http://example.com/''))
       = [(Signature, ''Google Safe Browsing'', False), (Signature, ''PhishTank'', False),
          (Signature, ''VirusTotal'', True)]"
proof -
  have ev: "\<not> sb_fresh exhausted_state 0 ''http://example.com/''"
    "\<not> within_limit 0 ''safe_browsing'' SAFE_BROWSING_PER_MINUTE exhausted_state"
    "fetch_phishtank online_platform ''http://example.com/'' = HttpStatus 503"
    "fetch_virustotal online_platform ''http://example.com/'' = Body (2, 1)"
    "map (\<lambda>l. (layer l, method_name l, matched l))
         (fst (checkAllAPIs online_platform 0 exhausted_state ''http://example.com/''))
       = [(Signature, ''Google Safe Browsing'', False), (Signature, ''PhishTank'', False),
          (Signature, ''VirusTotal'', True)]"
    by code_simp+
  from gateway_completeness[of online_platform 0 exhausted_state "''http://example.com/''"] ev
  show ?thesis by blast
qed


section \<open>No early exit across the layers\<close>







section \<open>Normalization\<close>

text \<open>On a string that does not parse, before or after lower-casing, normalizeURL is
  idempotent.\<close>

lemma normalizeURL_idempotent_malformed:
  assumes "new_URL env u = Inl e" and "new_URL env (toLowerCase u) = Inl e'"
  shows "normalizeURL env (normalizeURL env u) = normalizeURL env u"
  using assms by (simp add: normalizeURL_def toLowerCase_idem)

text \<open>C4: normalizeURL (normalizeURL u) = normalizeURL u for every string u. normalizeURL
  removes one trailing slash, so the claim fails on a URL that ends in two:
  \<open>http://example.com//\<close> is normalized to \<open>http://example.com/\<close>, and that to
  \<open>http://example.com\<close>.\<close>

theorem normalizeURL_not_idempotent:
  "normalizeURL offline_platform ''http://example.com//'' = ''http://example.com/''
   \<and> normalizeURL offline_platform (normalizeURL offline_platform ''http://example.com//'')
       = ''http://example.com''
   \<and> normalizeURL offline_platform (normalizeURL offline_platform ''http://example.com//'')
       \<noteq> normalizeURL offline_platform ''http://example.com//''"
  by code_simp

section \<open>Totality of the heuristic layer\<close>

text \<open>On a string that does not parse, extractFeatures returns its defaults and
  HeuristicEngine.analyze throws the TypeError of the parser.\<close>

lemma HeuristicEngine_analyze_malformed:
  assumes "new_URL env u = Inl e"
  shows "extractFeatures env u = default_features \<and> HeuristicEngine_analyze env u = Inl e"
  using assms by (simp add: extractFeatures_def HeuristicEngine_analyze_def)

text \<open>C8: extractFeatures never throws and returns the fixed defaults on a malformed
  URL, and HeuristicEngine.analyze never throws and returns a list of signals. The first
  half holds: extractFeatures is a function into the feature sets, and on \<open>not a url\<close>
  it returns the defaults, as extractMLFeatures returns its default vector. The second
  half fails on the same input: HeuristicEngine.analyze parses the URL again outside any
  try block and throws.\<close>

theorem HeuristicEngine_analyze_throws_on_malformed:
  "new_URL offline_platform ''not a url'' = Inl (TypeError ''Invalid URL'')
   \<and> extractFeatures offline_platform ''not a url'' = default_features
   \<and> extractMLFeatures offline_platform ''not a url'' = default_vector
   \<and> HeuristicEngine_analyze offline_platform ''not a url'' = Inl (TypeError ''Invalid URL'')"
proof -
  have p: "new_URL offline_platform ''not a url'' = Inl (TypeError ''Invalid URL'')"
    by code_simp
  then show ?thesis
    by (simp add: extractFeatures_def HeuristicEngine_analyze_def extractMLFeatures_def)
qed


end
